theory Spec2Isabelle
  imports Complex_Main "HOL-Library.AList"
begin

section \<open>Values, dictionaries and text\<close>

text \<open>
  The bot of \<^verbatim>\<open>services/whatsapp_client.py\<close> passes JSON-like Python values around:
  database rows, the session dictionary, the context bag. They are modelled by one
  datatype; a Python \<^verbatim>\<open>dict\<close> with string keys is an association list with the
  keys in insertion order. Text is \<^typ>\<open>string\<close>, one \<^typ>\<open>char\<close> per code point
  up to 255; the emoji of the fixed reply texts lie beyond and are written \<^verbatim>\<open>?\<close>,
  one per code point.
\<close>

datatype json =
    JNull
  | JBool bool
  | JNum real
  | JStr string
  | JArr "json list"
  | JObj "(string \<times> json) list"

type_synonym dict = "(string \<times> json) list"

text \<open>Python truthiness, as \<^verbatim>\<open>if x\<close> and \<^verbatim>\<open>if not x\<close> test it.\<close>

fun truthy :: "json \<Rightarrow> bool" where
  "truthy JNull = False"
| "truthy (JBool b) = b"
| "truthy (JNum x) = (x \<noteq> 0)"
| "truthy (JStr s) = (s \<noteq> [])"
| "truthy (JArr xs) = (xs \<noteq> [])"
| "truthy (JObj d) = (d \<noteq> [])"

definition has_key :: "dict \<Rightarrow> string \<Rightarrow> bool" where
  \<comment> \<open>\<^verbatim>\<open>k in d\<close>\<close>
  "has_key d k = (map_of d k \<noteq> None)"

definition dict_get :: "dict \<Rightarrow> string \<Rightarrow> json" where
  \<comment> \<open>\<^verbatim>\<open>d.get(k)\<close>, also \<^verbatim>\<open>d[k]\<close> where the key is known to be present\<close>
  "dict_get d k = (case map_of d k of None \<Rightarrow> JNull | Some v \<Rightarrow> v)"

definition dict_get_default :: "dict \<Rightarrow> string \<Rightarrow> json \<Rightarrow> json" where
  \<comment> \<open>\<^verbatim>\<open>d.get(k, default)\<close>\<close>
  "dict_get_default d k dflt = (case map_of d k of None \<Rightarrow> dflt | Some v \<Rightarrow> v)"

definition dict_set :: "string \<Rightarrow> json \<Rightarrow> dict \<Rightarrow> dict" where
  \<comment> \<open>\<^verbatim>\<open>d[k] = v\<close>\<close>
  "dict_set k v d = AList.update k v d"

text \<open>
  \<^verbatim>\<open>str.lower()\<close> on the code points below 256: the letters A to Z and the
  capital letters of the Latin-1 block (0xC0 to 0xDE without the multiplication sign
  0xD7) move up by 32, every other character stays.
\<close>

definition lower_char :: "char \<Rightarrow> char" where
  "lower_char c =
     (let n = (of_char c :: nat) in
      if (65 \<le> n \<and> n \<le> 90) \<or> (192 \<le> n \<and> n \<le> 222 \<and> n \<noteq> 215)
      then char_of (n + 32) else c)"

definition lower :: "string \<Rightarrow> string" where
  "lower s = map lower_char s"

text \<open>\<^verbatim>\<open>s.startswith(p)\<close>, \<^verbatim>\<open>kw in s\<close> and \<^verbatim>\<open>s.replace(old, "")\<close> on text.\<close>

fun startswith :: "string \<Rightarrow> string \<Rightarrow> bool" where
  "startswith s [] = True"
| "startswith [] (a # p) = False"
| "startswith (b # s) (a # p) = (a = b \<and> startswith s p)"

fun contains :: "string \<Rightarrow> string \<Rightarrow> bool" where
  \<comment> \<open>\<open>contains kw s\<close> is \<^verbatim>\<open>kw in s\<close>\<close>
  "contains kw [] = (kw = [])"
| "contains kw (c # s) = (startswith (c # s) kw \<or> contains kw s)"

definition any_in :: "string list \<Rightarrow> string \<Rightarrow> bool" where
  \<comment> \<open>\<^verbatim>\<open>any(kw in s for kw in kws)\<close>\<close>
  "any_in kws s = list_ex (\<lambda>kw. contains kw s) kws"

function remove_all :: "string \<Rightarrow> string \<Rightarrow> string" where
  \<comment> \<open>\<open>remove_all old s\<close> is \<^verbatim>\<open>s.replace(old, "")\<close> for a non-empty \<open>old\<close>\<close>
  "remove_all old [] = []"
| "remove_all old (c # s) =
     (if old \<noteq> [] \<and> startswith (c # s) old
      then remove_all old (drop (length old) (c # s))
      else c # remove_all old s)"
  by pat_completeness auto
termination
  by (relation "measure (\<lambda>(old, s). length s)") auto

text \<open>\<^verbatim>\<open>str(n)\<close> for a length.\<close>

function str_nat :: "nat \<Rightarrow> string" where
  "str_nat n =
     (if n < 10 then [char_of (48 + n)]
      else str_nat (n div 10) @ [char_of (48 + n mod 10)])"
  by pat_completeness auto
termination
  by (relation "measure id") auto

declare str_nat.simps [simp del]

section \<open>The record store, the outbound channel and the collaborators\<close>

text \<open>
  The hosted tables hold rows that the client library hands to the program as
  dictionaries; a table is the list of its rows in insertion order. A column that a
  row does not list is NULL, which \<^const>\<open>dict_get\<close> reads as \<^const>\<open>JNull\<close>, the
  way a select returns it.
\<close>

datatype table = Users | Messages | Uploads | Diamonds | Designs | Listings

text \<open>
  A message to the chat channel, as the four senders of the module build it: a text,
  a body with reply buttons (each an id and a title), an image with its caption, and
  the raw list payload of the main menu.
\<close>

datatype outbound =
    Text string string
  | Buttons string string "(string \<times> string) list"
  | Image string json string
  | MainMenu string

record world =
  tables :: "table \<Rightarrow> dict list"
  outbox :: "(outbound \<times> bool) list"

text \<open>
  What lies outside the program is a parameter of the model. Every call of the store
  has an outcome: it returns its rows (\<open>Ok\<close>), it returns no row and, for an insert,
  stores none (\<open>Empty\<close>), or it raises (\<open>Raise\<close>); a select or an update that does
  not raise works on the tables of the model. The outcome is fixed per call site for
  the handling of one message.
\<close>

datatype outcome = Ok | Empty | Raise

datatype call =
    UsersSelect | UsersTouch | UsersInsert
  | SessionSelect | SessionUpdate
  | MessagesInsert
  | StorageUpload | UploadsInsert
  | DiamondsSelect | DiamondsInsert
  | DesignsSelect | DesignsInsert
  | ListingsInsert

text \<open>
  Results of the collaborators, as their contracts give them: the design generator
  returns an image URL and the prompt it used, or an error; the 360 degree view a
  dictionary of images by angle; the search its ranked listings; the transcriber a text
  with a confidence.
\<close>

datatype design_result = DesignOk json json | DesignFailed json

datatype view_result = ViewOk dict | ViewFailed json

datatype search_result = SearchOk "dict list" | SearchFailed json

datatype transcription = Transcribed string real | NotTranscribed

record env =
  now :: string
  new_id :: json
  db :: "call \<Rightarrow> outcome"
  delivers :: "outbound \<Rightarrow> bool"
  raw_post_raises :: bool
  fmt :: "json \<Rightarrow> string"
  uuid4 :: string
  download :: "json \<Rightarrow> string option"
  public_url :: "string \<Rightarrow> json"
  intent_api_key :: "string option"
  intent_api :: "string \<Rightarrow> dict option"
  search_entities :: "string \<Rightarrow> json"
  gia_api_key :: "string option"
  vision_api :: "json \<Rightarrow> string + dict"
  pdf_to_image :: "json \<Rightarrow> string + json"
  transcribe :: "string \<Rightarrow> transcription"
  search :: "string \<Rightarrow> dict \<Rightarrow> search_result"
  auto_design :: "dict \<Rightarrow> design_result"
  free_design :: "string \<Rightarrow> design_result"
  gia_custom_design :: "dict \<Rightarrow> string \<Rightarrow> design_result"
  edit_design :: "json \<Rightarrow> json \<Rightarrow> string \<Rightarrow> design_result"
  create_variation :: "json \<Rightarrow> design_result"
  generate_360_view :: "json \<Rightarrow> json \<Rightarrow> view_result"

text \<open>
  The fields of \<^typ>\<open>env\<close>: the clock reading, the id the store gives a new row,
  the outcome of each store call, whether a post to the channel goes through, whether
  the unguarded post of \<^verbatim>\<open>send_raw_message\<close> raises, Python's \<^verbatim>\<open>str\<close> on
  numbers, lists and dictionaries, a fresh uuid, the media download (\<open>None\<close> when it
  fails), the public URL of an uploaded file, and the external services. For
  \<open>intent_api\<close>, \<open>vision_api\<close> and \<open>pdf_to_image\<close> the failure value stands for
  a call that raised, or whose reply was not a JSON object so that reading it raised;
  \<open>Inl\<close> carries the text of the exception. \<open>search_entities\<close> is
  \<^verbatim>\<open>_extract_search_entities\<close>, whose result only the search service reads.
\<close>

datatype py_error = TypeError | AttributeError | RequestException

subsection \<open>Queries\<close>

definition select_eq :: "table \<Rightarrow> string \<Rightarrow> json \<Rightarrow> world \<Rightarrow> dict list" where
  \<comment> \<open>\<^verbatim>\<open>table(t).select(...).eq(col, v).execute().data\<close>\<close>
  "select_eq t col v w = filter (\<lambda>r. dict_get r col = v) (tables w t)"

definition override :: "dict \<Rightarrow> dict \<Rightarrow> dict" where
  \<comment> \<open>the row with the columns of \<open>upd\<close> written over it\<close>
  "override r upd = AList.updates (map fst upd) (map snd upd) r"

definition update_eq :: "table \<Rightarrow> dict \<Rightarrow> string \<Rightarrow> json \<Rightarrow> world \<Rightarrow> world" where
  \<comment> \<open>\<^verbatim>\<open>table(t).update(upd).eq(col, v).execute()\<close>\<close>
  "update_eq t upd col v w =
     w\<lparr>tables := (tables w)
        (t := map (\<lambda>r. if dict_get r col = v then override r upd else r) (tables w t))\<rparr>"

definition stored :: "env \<Rightarrow> dict \<Rightarrow> dict" where
  \<comment> \<open>the store gives an inserted row its id\<close>
  "stored e row = (''id'', new_id e) # row"

definition insert_row :: "env \<Rightarrow> table \<Rightarrow> dict \<Rightarrow> world \<Rightarrow> world" where
  \<comment> \<open>\<^verbatim>\<open>table(t).insert(row).execute()\<close>\<close>
  "insert_row e t row w = w\<lparr>tables := (tables w)(t := tables w t @ [stored e row])\<rparr>"

subsection \<open>Database helper functions\<close>

definition new_user :: "env \<Rightarrow> string \<Rightarrow> dict" where
  "new_user e whatsapp_number =
     [(''whatsapp_number'', JStr whatsapp_number),
      (''last_interaction'', JStr (now e)),
      (''created_at'', JStr (now e)),
      (''session_step'', JStr ''idle''),
      (''session_context'', JObj [])]"

text \<open>
  \<^verbatim>\<open>get_or_create_user\<close>: one \<^verbatim>\<open>try\<close> around the select, the update of
  \<^verbatim>\<open>last_interaction\<close> and the insert; whatever raises gives \<^verbatim>\<open>None\<close>. The user
  returned for a known number is the row as selected, before the update.
\<close>

definition get_or_create_user :: "env \<Rightarrow> string \<Rightarrow> world \<Rightarrow> dict option \<times> world" where
  "get_or_create_user e whatsapp_number w =
     (if db e UsersSelect = Raise then (None, w)
      else
        (case select_eq Users ''whatsapp_number'' (JStr whatsapp_number) w of
           user # _ \<Rightarrow>
             (if db e UsersTouch = Raise then (None, w)
              else (Some user,
                    update_eq Users [(''last_interaction'', JStr (now e))]
                      ''id'' (dict_get user ''id'') w))
         | [] \<Rightarrow>
             (case db e UsersInsert of
                Ok \<Rightarrow> (Some (stored e (new_user e whatsapp_number)),
                       insert_row e Users (new_user e whatsapp_number) w)
              | Empty \<Rightarrow> (None, w)
              | Raise \<Rightarrow> (None, w))))"

definition default_session :: dict where
  "default_session =
     [(''step'', JStr ''idle''), (''context'', JObj []),
      (''last_diamond_id'', JNull), (''last_design_id'', JNull)]"

text \<open>
  \<^verbatim>\<open>get_user_session\<close> selects the four session columns, so each \<^verbatim>\<open>.get\<close> finds
  its key and the defaults written there are never taken.
\<close>

definition get_user_session :: "env \<Rightarrow> json \<Rightarrow> world \<Rightarrow> dict" where
  "get_user_session e user_id w =
     (if db e SessionSelect = Raise then default_session
      else
        (case select_eq Users ''id'' user_id w of
           user_data # _ \<Rightarrow>
             [(''step'', dict_get user_data ''session_step''),
              (''context'', dict_get user_data ''session_context''),
              (''last_diamond_id'', dict_get user_data ''last_diamond_id''),
              (''last_design_id'', dict_get user_data ''last_design_id'')]
         | [] \<Rightarrow> default_session))"

definition session_columns :: "dict \<Rightarrow> dict" where
  \<comment> \<open>\<^verbatim>\<open>db_updates\<close> of \<^verbatim>\<open>update_user_session\<close>\<close>
  "session_columns updates =
     (if has_key updates ''step''
      then [(''session_step'', dict_get updates ''step'')] else []) @
     (if has_key updates ''context''
      then [(''session_context'', dict_get updates ''context'')] else []) @
     (if has_key updates ''last_diamond_id''
      then [(''last_diamond_id'', dict_get updates ''last_diamond_id'')] else []) @
     (if has_key updates ''last_design_id''
      then [(''last_design_id'', dict_get updates ''last_design_id'')] else [])"

definition update_user_session :: "env \<Rightarrow> json \<Rightarrow> dict \<Rightarrow> world \<Rightarrow> world" where
  "update_user_session e user_id updates w =
     (let db_updates = session_columns updates in
      if db_updates \<noteq> [] then
        (if db e SessionUpdate = Raise then w
         else update_eq Users db_updates ''id'' user_id w)
      else w)"

definition save_message_to_db ::
  "env \<Rightarrow> json \<Rightarrow> string \<Rightarrow> string \<Rightarrow> json \<Rightarrow> json \<Rightarrow> json \<Rightarrow> world \<Rightarrow> world" where
  "save_message_to_db e user_id direction message_type content media_url meta w =
     (case db e MessagesInsert of
        Ok \<Rightarrow>
          insert_row e Messages
            [(''user_id'', user_id),
             (''direction'', JStr direction),
             (''message_type'', JStr message_type),
             (''content'', content),
             (''media_url'', media_url),
             (''meta'', if truthy meta then meta else JObj []),
             (''created_at'', JStr (now e))] w
      | Empty \<Rightarrow> w
      | Raise \<Rightarrow> w)"

subsection \<open>Message sending functions\<close>

text \<open>
  Each sender posts once and returns whether the post went through; no caller reads
  the result. The outbox keeps every attempt with that result.
\<close>

definition post :: "env \<Rightarrow> outbound \<Rightarrow> world \<Rightarrow> world" where
  "post e m w = w\<lparr>outbox := outbox w @ [(m, delivers e m)]\<rparr>"

definition send_message :: "env \<Rightarrow> string \<Rightarrow> string \<Rightarrow> world \<Rightarrow> world" where
  "send_message e to text w = post e (Text to text) w"

definition send_interactive_buttons ::
  "env \<Rightarrow> string \<Rightarrow> string \<Rightarrow> (string \<times> string) list \<Rightarrow> world \<Rightarrow> world" where
  \<comment> \<open>at most three buttons, each title cut to 20 characters\<close>
  "send_interactive_buttons e to body_text buttons w =
     post e (Buttons to body_text (map (\<lambda>(i, title). (i, take 20 title)) (take 3 buttons))) w"

definition send_image :: "env \<Rightarrow> string \<Rightarrow> json \<Rightarrow> string \<Rightarrow> world \<Rightarrow> world" where
  "send_image e to image_url caption w = post e (Image to image_url caption) w"

definition py_str :: "env \<Rightarrow> json \<Rightarrow> string" where
  \<comment> \<open>a value inside an f-string\<close>
  "py_str e v =
     (case v of
        JStr s \<Rightarrow> s
      | JNull \<Rightarrow> ''None''
      | JBool b \<Rightarrow> (if b then ''True'' else ''False'')
      | _ \<Rightarrow> fmt e v)"

definition key_configured :: "string option \<Rightarrow> bool" where
  \<comment> \<open>\<^verbatim>\<open>self.api_key and self.api_key != "placeholder"\<close>\<close>
  "key_configured k = (case k of None \<Rightarrow> False | Some s \<Rightarrow> s \<noteq> [] \<and> s \<noteq> ''placeholder'')"

section \<open>Menus, media and the external services\<close>

subsection \<open>Menu handlers\<close>

definition gia_summary :: "env \<Rightarrow> dict \<Rightarrow> string" where
  "gia_summary e diamond_data =
     ''? *GIA Certificate Processed*'' @ [CHR 0x0A, CHR 0x0A] @ ''? *Diamond Details:*'' @
       [CHR 0x0A] @ ''? Shape: '' @
     py_str e (dict_get_default diamond_data ''shape'' (JStr ''N/A'')) @
     [CHR 0x0A] @ ''? Carat: '' @
     py_str e (dict_get_default diamond_data ''carat'' (JStr ''N/A'')) @
     [CHR 0x0A] @ ''? Color: '' @
     py_str e
       (if truthy (dict_get_default diamond_data ''color'' (JStr ''N/A''))
        then dict_get_default diamond_data ''color'' (JStr ''N/A'')
        else dict_get_default diamond_data ''primary_hue'' (JStr ''N/A'')) @
     [CHR 0x0A] @ ''? Clarity: '' @
     py_str e (dict_get_default diamond_data ''clarity'' (JStr ''N/A'')) @
     [CHR 0x0A] @ ''? Cut: '' @
     py_str e (dict_get_default diamond_data ''cut'' (JStr ''N/A'')) @
     [CHR 0x0A] @ ''? Report #: '' @
     py_str e (dict_get_default diamond_data ''certificate_number'' (JStr ''N/A'')) @
     [CHR 0x0A, CHR 0x0A] @ ''What would you like to do?''"

definition gia_buttons :: "(string \<times> string) list" where
  "gia_buttons =
     [(''list_for_sale'', ''? List for Sale''),
      (''design_jewelry'', ''? Design Jewelry''),
      (''improve_diamond'', ''? Improve Diamond'')]"

text \<open>
  \<^verbatim>\<open>send_gia_menu\<close> and \<^verbatim>\<open>send_main_menu\<close> are the two places of the module that
  save an outgoing message: after the post, whatever its result.
\<close>

definition send_gia_menu :: "env \<Rightarrow> string \<Rightarrow> json \<Rightarrow> dict \<Rightarrow> world \<Rightarrow> world" where
  "send_gia_menu e to user_id diamond_data w =
     save_message_to_db e user_id ''outgoing'' ''interactive''
       (JStr (gia_summary e diamond_data)) JNull JNull
       (send_interactive_buttons e to (gia_summary e diamond_data) gia_buttons w)"

definition menu_body :: string where
  "menu_body =
     ''I can help you with various diamond services. Please select '' @
       ''an option below ?''"

text \<open>
  \<^verbatim>\<open>send_raw_message\<close> posts without a \<^verbatim>\<open>try\<close>: when the post raises, the error
  leaves \<^verbatim>\<open>send_main_menu\<close> before the menu is saved.
\<close>

definition send_raw_message :: "env \<Rightarrow> outbound \<Rightarrow> world \<Rightarrow> py_error option \<times> world" where
  "send_raw_message e payload w =
     (if raw_post_raises e then (Some RequestException, w) else (None, post e payload w))"

definition send_main_menu :: "env \<Rightarrow> string \<Rightarrow> json \<Rightarrow> world \<Rightarrow> py_error option \<times> world" where
  "send_main_menu e to user_id w =
     (case send_raw_message e (MainMenu to) w of
        (Some err, w1) \<Rightarrow> (Some err, w1)
      | (None, w1) \<Rightarrow>
          (None,
           save_message_to_db e user_id ''outgoing'' ''interactive'' (JStr menu_body)
             JNull JNull w1))"

subsection \<open>File download and upload\<close>

definition download_whatsapp_media :: "env \<Rightarrow> json \<Rightarrow> string option" where
  "download_whatsapp_media e media_id = download e media_id"

text \<open>
  \<^verbatim>\<open>upload_to_supabase\<close> returns the pair of the upload id and the file URL, or
  \<^verbatim>\<open>(None, None)\<close>. The file itself goes to the storage bucket, which is not part
  of the tables.
\<close>

definition upload_to_supabase ::
  "env \<Rightarrow> string \<Rightarrow> json \<Rightarrow> string \<Rightarrow> string \<Rightarrow> world \<Rightarrow> (json \<times> json) \<times> world" where
  "upload_to_supabase e file_content user_id file_name file_type w =
     (if db e StorageUpload = Raise then ((JNull, JNull), w)
      else
        (case db e UploadsInsert of
           Ok \<Rightarrow>
             ((new_id e, public_url e file_name),
              insert_row e Uploads
                [(''user_id'', user_id),
                 (''file_url'', public_url e file_name),
                 (''file_type'', JStr file_type),
                 (''status'', JStr ''uploaded''),
                 (''created_at'', JStr (now e))] w)
         | Empty \<Rightarrow> ((JNull, JNull), w)
         | Raise \<Rightarrow> ((JNull, JNull), w)))"

subsection \<open>The intent detector\<close>

definition intent_dict :: "string \<Rightarrow> real \<Rightarrow> json \<Rightarrow> string \<Rightarrow> dict" where
  "intent_dict intent confidence entities reasoning =
     [(''intent'', JStr intent), (''confidence'', JNum confidence),
      (''entities'', entities), (''reasoning'', JStr reasoning)]"

text \<open>
  \<^verbatim>\<open>_placeholder_detection\<close>: keyword matching on the lowercased text, first match
  wins. The session it is given has the keys \<^verbatim>\<open>step\<close>, \<^verbatim>\<open>context\<close>,
  \<^verbatim>\<open>last_diamond_id\<close> and \<^verbatim>\<open>last_design_id\<close>; the keys read here are others.
\<close>

definition placeholder_detection :: "env \<Rightarrow> string \<Rightarrow> dict \<Rightarrow> dict" where
  "placeholder_detection e text session =
     (let text_lower = lower text in
      if any_in [''try again'', ''variation'', ''another'', ''different style''] text_lower
      then intent_dict ''design_variation'' (95 / 100) (JObj [])
             ''User requested design variation''
      else if any_in [''change'', ''make it'', ''add'', ''remove'', ''modify'', ''edit'',
                      ''thicker'', ''thinner'', ''gold'', ''silver'', ''platinum''] text_lower
              \<and> truthy (dict_get session ''last_design_prompt'')
      then intent_dict ''design_edit'' (9 / 10) (JObj [])
             ''User wants to edit existing design''
      else if any_in [''show me'', ''find'', ''search'', ''looking for'', ''want'', ''need'',
                      ''carat'', ''oval'', ''round'', ''emerald'', ''price''] text_lower
      then intent_dict ''search'' (85 / 100) (search_entities e text_lower)
             ''User searching for diamonds''
      else if any_in [''design'', ''create'', ''make'', ''custom''] text_lower
      then (if truthy (dict_get session ''last_gia'')
            then intent_dict ''design_with_gia'' (9 / 10) (JObj [])
                   ''User wants to design with uploaded GIA''
            else intent_dict ''design_free_input'' (85 / 100) (JObj [])
                   ''User wants free-form design'')
      else if any_in [''price'', ''sell'', ''list'', ''cost'', ''contact''] text_lower
      then intent_dict ''listing_intent'' (8 / 10) (JObj [])
             ''User discussing pricing/listing''
      else if any_in [''hi'', ''hello'', ''hey'', ''thanks'', ''thank you'', ''bye'',
                      ''goodbye''] text_lower
      then intent_dict ''greeting'' (95 / 100) (JObj []) ''Social greeting''
      else intent_dict ''general_inquiry'' (6 / 10) (JObj [])
             ''Could not determine specific intent'')"

definition detect :: "env \<Rightarrow> string \<Rightarrow> dict \<Rightarrow> dict" where
  "detect e text session =
     (let context_info =
            (if truthy (dict_get session ''last_gia'')
             then [CHR 0x0A] @ ''[Context: User has uploaded GIA certificate]'' else []) @
            (if truthy (dict_get session ''last_design_prompt'')
             then [CHR 0x0A] @ ''[Context: User has active design session]'' else []);
          user_message = text @ context_info
      in if key_configured (intent_api_key e) then
           (case intent_api e user_message of
              Some result \<Rightarrow> result
            | None \<Rightarrow>
                intent_dict ''general_inquiry'' (5 / 10) (JObj [])
                  ''Error in detection, defaulting to general inquiry'')
         else placeholder_detection e text session)"

subsection \<open>The certificate extractor\<close>

definition placeholder_extraction :: dict where
  "placeholder_extraction =
     [(''report_number'', JStr ''PLACEHOLDER_12345''),
      (''shape'', JStr ''Round Brilliant''),
      (''measurements'', JStr ''6.52 x 6.47 x 4.01''),
      (''carat'', JNum (101 / 100)),
      (''color'', JStr ''E''),
      (''clarity'', JStr ''VS2''),
      (''cut'', JStr ''Excellent''),
      (''polish'', JStr ''Excellent''),
      (''symmetry'', JStr ''Very Good''),
      (''fluorescence'', JStr ''None''),
      (''depth_percent'', JNum (618 / 10)),
      (''table_percent'', JNum 57),
      (''girdle'', JStr ''Medium to Slightly Thick''),
      (''culet'', JStr ''None''),
      (''clarity_characteristics'', JArr [JStr ''Crystal'', JStr ''Feather'', JStr ''Cloud'']),
      (''inscription'', JStr ''GIA PLACEHOLDER_12345''),
      (''crown_angle'', JNum (345 / 10)),
      (''crown_height'', JNum (155 / 10)),
      (''pavilion_angle'', JNum (408 / 10)),
      (''pavilion_depth'', JNum 43),
      (''star_length'', JNum 50),
      (''lower_half'', JNum 80),
      (''girdle_min'', JStr ''Medium''),
      (''girdle_max'', JStr ''Slightly Thick'')]"

text \<open>
  \<^verbatim>\<open>extract_from_image\<close>: the extraction succeeds exactly when the result has a
  truthy \<^verbatim>\<open>report_number\<close>.
\<close>

definition extract_from_image :: "env \<Rightarrow> json \<Rightarrow> dict" where
  "extract_from_image e image_url =
     (case (if key_configured (gia_api_key e) then vision_api e image_url
            else Inr placeholder_extraction) of
        Inr result \<Rightarrow>
          (if truthy (dict_get result ''report_number'')
           then [(''success'', JBool True), (''data'', JObj result), (''error'', JNull)]
           else [(''success'', JBool False),
                 (''error'', JStr ''Could not find GIA report number in image''),
                 (''data'', JObj result)])
      | Inl msg \<Rightarrow>
          [(''success'', JBool False),
           (''error'', JStr (''Failed to extract from image: '' @ msg)),
           (''data'', JNull)])"

definition extract_from_pdf :: "env \<Rightarrow> json \<Rightarrow> dict" where
  "extract_from_pdf e pdf_url =
     (case pdf_to_image e pdf_url of
        Inr image_url \<Rightarrow> extract_from_image e image_url
      | Inl msg \<Rightarrow>
          [(''success'', JBool False),
           (''error'', JStr (''Failed to extract from PDF: '' @ msg)),
           (''data'', JNull)])"

section \<open>Reply texts\<close>

text \<open>The fixed texts the handlers send, under a name each.\<close>

definition msg_error_connecting :: string where
  "msg_error_connecting =
     ''? Error connecting to system. Please try again.''"

definition msg_need_gia_first :: string where
  "msg_need_gia_first =
     ''Please upload a GIA certificate first to design jewelry '' @ ''with your diamond.''"

definition msg_processing_voice :: string where
  "msg_processing_voice =
     ''? Processing your voice message...''"

definition msg_voice_download_failed :: string where
  "msg_voice_download_failed =
     ''? Failed to download voice message. Please try again.''"

definition msg_voice_failed :: string where
  "msg_voice_failed =
     ''? Could not transcribe voice message. Please try sending '' @ ''text instead.''"

definition msg_processing_document :: string where
  "msg_processing_document =
     ''? Processing your document...''"

definition msg_document_download_failed :: string where
  "msg_document_download_failed =
     ''? Failed to download document. Please try again.''"

definition msg_document_failed :: string where
  "msg_document_failed =
     ''? Failed to process document. Please try again.''"

definition msg_extracting :: string where
  "msg_extracting =
     ''? Extracting diamond information...''"

definition msg_save_diamond_failed :: string where
  "msg_save_diamond_failed =
     ''? Failed to save diamond data.''"

definition msg_processing_image :: string where
  "msg_processing_image =
     ''?? Processing your image...''"

definition msg_image_download_failed :: string where
  "msg_image_download_failed =
     ''? Failed to download image. Please try again.''"

definition msg_image_failed :: string where
  "msg_image_failed =
     ''? Failed to process image. Please try again.''"

definition msg_analyzing :: string where
  "msg_analyzing =
     ''? Analyzing image...''"

definition msg_not_gia :: string where
  "msg_not_gia =
     ''This doesn'' @ [CHR 0x27] @ ''t appear to be a GIA certificate. If you'' @ [CHR 0x27] @
       ''d like to use this as a design reference, please describe '' @ ''what you'' @
       [CHR 0x27] @ ''d like to create.''"

definition msg_upload_gia :: string where
  "msg_upload_gia =
     ''? Please upload your GIA certificate (PDF).''"

definition msg_design_jewelry :: string where
  "msg_design_jewelry =
     ''? Let'' @ [CHR 0x27] @ ''s design your custom jewelry! Please describe your design '' @
       ''idea.''"

definition msg_search_diamonds :: string where
  "msg_search_diamonds =
     ''? Please provide your diamond search criteria (e.g., 1.0ct, '' @ ''D color, VS1).''"

definition msg_general_inquiry :: string where
  "msg_general_inquiry =
     ''? How can I assist you today?''"

definition msg_unknown_option :: string where
  "msg_unknown_option =
     ''?? Unknown option selected. Please try again.''"

definition msg_no_diamond :: string where
  "msg_no_diamond =
     ''? No diamond found. Please upload a GIA certificate first.''"

definition msg_ask_price :: string where
  "msg_ask_price =
     ''? Please provide the price for this diamond, or type '' @ [CHR 0x27] @ ''contact'' @
       [CHR 0x27] @ '' if you prefer '' @ [CHR 0x27] @ ''Contact for Price'' @ [CHR 0x27] @
       ''.''"

definition msg_ask_contact :: string where
  "msg_ask_contact =
     ''? Please provide contact information for buyers (phone/email):''"

definition msg_ask_images :: string where
  "msg_ask_images =
     ''? Great! Now please send one or more images of the diamond. '' @ ''Type '' @
       [CHR 0x27] @ ''done'' @ [CHR 0x27] @ '' when finished.''"

definition msg_need_image :: string where
  "msg_need_image =
     ''?? Please send at least one image before completing the '' @ ''listing.''"

definition msg_listing_created :: string where
  "msg_listing_created =
     ''? Listing created and submitted for admin approval. You'' @ [CHR 0x27] @
       ''ll be notified once it'' @ [CHR 0x27] @ ''s live!''"

definition msg_listing_failed :: string where
  "msg_listing_failed =
     ''? Failed to create listing. Please try again.''"

definition msg_diamond_not_found :: string where
  "msg_diamond_not_found =
     ''? Diamond data not found.''"

definition msg_generating_auto :: string where
  "msg_generating_auto =
     ''? Generating jewelry design based on your diamond '' @ ''characteristics...''"

definition msg_error :: string where
  "msg_error =
     ''? An error occurred. Please try again.''"

definition msg_creating_free :: string where
  "msg_creating_free =
     ''? Creating your custom jewelry design...''"

definition msg_creating_custom :: string where
  "msg_creating_custom =
     ''? Creating custom design with your diamond...''"

definition msg_no_previous_design_edit :: string where
  "msg_no_previous_design_edit =
     ''? No previous design found. Please create a design first.''"

definition msg_design_not_found :: string where
  "msg_design_not_found =
     ''? Design not found.''"

definition msg_applying_changes :: string where
  "msg_applying_changes =
     ''?? Applying your changes...''"

definition msg_no_previous_design :: string where
  "msg_no_previous_design =
     ''? No previous design found.''"

definition msg_generating_variation :: string where
  "msg_generating_variation =
     ''? Generating variation...''"

definition msg_generating_360 :: string where
  "msg_generating_360 =
     ''? Generating 360'' @ [CHR 0xB0] @ '' view... This may take a moment.''"

definition msg_searching :: string where
  "msg_searching =
     ''? Searching for diamonds...''"

definition msg_no_results :: string where
  "msg_no_results =
     ''? No diamonds found matching your criteria. Try adjusting '' @ ''your search.''"

definition msg_more_results :: string where
  "msg_more_results =
     ''? Here are more results... [Implementation needed: retrieve '' @
       ''cached search results]''"

definition msg_inquiry_response :: string where
  "msg_inquiry_response =
     ''Thank you for your question! '' @ [CHR 0x0A, CHR 0x0A] @
       ''Our diamond experts are here to help. For immediate '' @ ''assistance:'' @ [CHR 0x0A] @
       ''? Email: support@diamondbot.com'' @ [CHR 0x0A] @ ''? Phone: +1-XXX-XXX-XXXX'' @
       [CHR 0x0A, CHR 0x0A] @ ''Or continue chatting - I'' @ [CHR 0x27] @
       ''ll do my best to assist you!''"

definition msg_unsupported :: string where
  "msg_unsupported =
     ''?? Sorry, I can only process text, voice, images, and '' @ ''documents.''"

definition msg_processing_error :: string where
  "msg_processing_error =
     ''? An error occurred while processing your message. Please '' @ ''try again.''"

section \<open>The listing flow\<close>

definition handle_list_for_sale :: "env \<Rightarrow> string \<Rightarrow> json \<Rightarrow> world \<Rightarrow> world" where
  "handle_list_for_sale e from_number user_id w =
     (let session = get_user_session e user_id w;
          diamond_id = dict_get session ''last_diamond_id''
      in if \<not> truthy diamond_id then send_message e from_number msg_no_diamond w
         else
           send_message e from_number msg_ask_price
             (update_user_session e user_id
                [(''step'', JStr ''listing_price''), (''context'', JObj [])] w))"

definition listing_data :: "env \<Rightarrow> json \<Rightarrow> dict \<Rightarrow> dict \<Rightarrow> json \<Rightarrow> dict" where
  "listing_data e user_id session context images =
     [(''user_id'', user_id),
      (''diamond_id'', dict_get session ''last_diamond_id''),
      (''price'', dict_get context ''price''),
      (''contact_info'', dict_get context ''contact_info''),
      (''images'', images),
      (''status'', JStr ''pending_review''),
      (''created_at'', JStr (now e))]"

text \<open>
  \<^verbatim>\<open>handle_listing_flow\<close>. The context read from the session is used as a
  dictionary: \<^verbatim>\<open>context["price"] = price\<close> raises \<^verbatim>\<open>TypeError\<close> and
  \<^verbatim>\<open>context.get\<close> raises \<^verbatim>\<open>AttributeError\<close> on anything else, outside every
  \<^verbatim>\<open>try\<close> of the function, so the error leaves it. The insert of the listing is
  inside the \<^verbatim>\<open>try\<close>; its result is not read.
\<close>

definition handle_listing_flow ::
  "env \<Rightarrow> string \<Rightarrow> json \<Rightarrow> string \<Rightarrow> dict \<Rightarrow> world \<Rightarrow> py_error option \<times> world" where
  "handle_listing_flow e from_number user_id text session w =
     (let step = dict_get session ''step'' in
      if step = JStr ''listing_price'' then
        (let price = (if lower text = ''contact'' then ''Contact for Price'' else text) in
         case dict_get_default session ''context'' (JObj []) of
           JObj context \<Rightarrow>
             (None,
              send_message e from_number msg_ask_contact
                (update_user_session e user_id
                   [(''step'', JStr ''listing_contact''),
                    (''context'', JObj (dict_set ''price'' (JStr price) context))] w))
         | _ \<Rightarrow> (Some TypeError, w))
      else if step = JStr ''listing_contact'' then
        (case dict_get_default session ''context'' (JObj []) of
           JObj context \<Rightarrow>
             (None,
              send_message e from_number msg_ask_images
                (update_user_session e user_id
                   [(''step'', JStr ''listing_media''),
                    (''context'', JObj (dict_set ''contact_info'' (JStr text) context))] w))
         | _ \<Rightarrow> (Some TypeError, w))
      else if step = JStr ''listing_media'' \<and> lower text = ''done'' then
        (case dict_get_default session ''context'' (JObj []) of
           JObj context \<Rightarrow>
             (let images = dict_get_default context ''images'' (JArr []) in
              if \<not> truthy images then (None, send_message e from_number msg_need_image w)
              else
                (case db e ListingsInsert of
                   Raise \<Rightarrow> (None, send_message e from_number msg_listing_failed w)
                 | Empty \<Rightarrow>
                     (None,
                      update_user_session e user_id
                        [(''step'', JStr ''idle''), (''context'', JObj [])]
                        (send_message e from_number msg_listing_created w))
                 | Ok \<Rightarrow>
                     (None,
                      update_user_session e user_id
                        [(''step'', JStr ''idle''), (''context'', JObj [])]
                        (send_message e from_number msg_listing_created
                           (insert_row e Listings
                              (listing_data e user_id session context images) w)))))
         | _ \<Rightarrow> (Some AttributeError, w))
      else (None, w))"

section \<open>Feature handlers\<close>

subsection \<open>Search and general questions\<close>

definition search_listing_text :: "env \<Rightarrow> dict \<Rightarrow> dict \<Rightarrow> string" where
  "search_listing_text e diamond listing =
     ''? '' @ py_str e (dict_get_default diamond ''shape'' (JStr ''N/A'')) @
     '' Diamond'' @ [CHR 0x0A, CHR 0x0A] @ ''? Specs:'' @ [CHR 0x0A] @ ''? Carat: '' @
     py_str e (dict_get_default diamond ''carat'' (JStr ''N/A'')) @
     [CHR 0x0A] @ ''? Color: '' @
     py_str e (dict_get_default diamond ''primary_hue'' (JStr ''N/A'')) @
     [CHR 0x0A] @ ''? Clarity: '' @
     py_str e (dict_get_default diamond ''clarity'' (JStr ''N/A'')) @
     [CHR 0x0A] @ ''? Cut: '' @
     py_str e (dict_get_default diamond ''cut'' (JStr ''N/A'')) @
     [CHR 0x0A] @ ''? Price: '' @
     py_str e (dict_get_default listing ''price'' (JStr ''Contact for Price'')) @
     [CHR 0x0A, CHR 0x0A] @ ''Report: '' @
     py_str e (dict_get_default diamond ''certificate_number'' (JStr ''N/A''))"

text \<open>
  One round of the loop over the first three listings. Its body is inside a
  \<^verbatim>\<open>try\<close> that only logs: a select that raises, \<^verbatim>\<open>len\<close> of a number and
  \<^verbatim>\<open>images[0]\<close> of a dictionary send nothing.
\<close>

definition send_search_listing :: "env \<Rightarrow> string \<Rightarrow> dict \<Rightarrow> world \<Rightarrow> world" where
  "send_search_listing e from_number listing w =
     (if db e DiamondsSelect = Raise then w
      else
        (case select_eq Diamonds ''id'' (dict_get listing ''diamond_id'') w of
           [] \<Rightarrow> w
         | diamond # _ \<Rightarrow>
             (let message = search_listing_text e diamond listing;
                  images = dict_get_default listing ''images'' (JArr [])
              in if \<not> truthy images then send_message e from_number message w
                 else
                   (case images of
                      JArr (first # _) \<Rightarrow> send_image e from_number first message w
                    | JStr (c # _) \<Rightarrow> send_image e from_number (JStr [c]) message w
                    | _ \<Rightarrow> w))))"

definition handle_search_query ::
  "env \<Rightarrow> string \<Rightarrow> json \<Rightarrow> string \<Rightarrow> dict \<Rightarrow> world \<Rightarrow> world" where
  "handle_search_query e from_number user_id query intent_result w =
     (let w1 = send_message e from_number msg_searching w in
      case search e query intent_result of
        SearchOk listings \<Rightarrow>
          (if listings = [] then send_message e from_number msg_no_results w1
           else
             (let w2 = fold (send_search_listing e from_number) (take 3 listings) w1 in
              if length listings > 3 then
                send_interactive_buttons e from_number
                  (''Showing 3 of '' @ str_nat (length listings) @ '' results'')
                  [(''view_more_results'',
                    ''? View All ('' @ str_nat (length listings) @ '')'')] w2
              else w2))
      | SearchFailed err \<Rightarrow>
          send_message e from_number (''? Search failed: '' @ py_str e err) w1)"

definition handle_view_more_results :: "env \<Rightarrow> string \<Rightarrow> json \<Rightarrow> world \<Rightarrow> world" where
  "handle_view_more_results e from_number user_id w =
     send_message e from_number msg_more_results w"

definition handle_general_inquiry :: "env \<Rightarrow> string \<Rightarrow> json \<Rightarrow> string \<Rightarrow> world \<Rightarrow> world" where
  "handle_general_inquiry e from_number user_id question w =
     send_message e from_number msg_inquiry_response w"

subsection \<open>Design handlers\<close>

text \<open>
  Each design handler inserts the new design, and only when the insert returns the row
  writes its id to the session as \<^verbatim>\<open>last_design_id\<close>. In the three creating
  handlers the buttons name \<^verbatim>\<open>design_id\<close>, which is unbound when the insert returned
  no row: the error is raised after the image is sent and caught by the handler's
  \<^verbatim>\<open>except\<close>.
\<close>

definition design_buttons :: "env \<Rightarrow> json \<Rightarrow> (string \<times> string) list" where
  "design_buttons e design_id =
     [(''design_variation'', ''? Try Variation''),
      (''design_360_'' @ py_str e design_id, ''? 360'' @ [CHR 0xB0] @ '' View'')]"

definition handle_auto_design :: "env \<Rightarrow> string \<Rightarrow> json \<Rightarrow> world \<Rightarrow> world" where
  "handle_auto_design e from_number user_id w =
     (let session = get_user_session e user_id w;
          diamond_id = dict_get session ''last_diamond_id''
      in if \<not> truthy diamond_id then send_message e from_number msg_no_diamond w
         else if db e DiamondsSelect = Raise then send_message e from_number msg_error w
         else
           (case select_eq Diamonds ''id'' diamond_id w of
              [] \<Rightarrow> send_message e from_number msg_diamond_not_found w
            | diamond_data # _ \<Rightarrow>
                (let w1 = send_message e from_number msg_generating_auto w;
                     caption =
                       ''? Your custom jewelry design'' @ [CHR 0x0A, CHR 0x0A] @
                         ''Based on: '' @
                       py_str e (dict_get diamond_data ''shape'') @ '' '' @
                       py_str e (dict_get diamond_data ''carat'') @ ''ct''
                 in case auto_design e diamond_data of
                      DesignOk image_url prompt \<Rightarrow>
                        (case db e DesignsInsert of
                           Raise \<Rightarrow> send_message e from_number msg_error w1
                         | Empty \<Rightarrow>
                             send_message e from_number msg_error
                               (send_image e from_number image_url caption w1)
                         | Ok \<Rightarrow>
                             send_interactive_buttons e from_number
                               ''What would you like to do with this design?''
                               (design_buttons e (new_id e))
                               (send_image e from_number image_url caption
                                  (update_user_session e user_id
                                     [(''last_design_id'', new_id e)]
                                     (insert_row e Designs
                                        [(''user_id'', user_id),
                                         (''diamond_id'', diamond_id),
                                         (''type'', JStr ''auto_design''),
                                         (''generated_prompt'', prompt),
                                         (''generated_image_url'', image_url),
                                         (''status'', JStr ''completed''),
                                         (''created_at'', JStr (now e))] w1))))
                    | DesignFailed err \<Rightarrow>
                        send_message e from_number
                          (''? Failed to generate design: '' @ py_str e err) w1)))"

definition handle_free_design :: "env \<Rightarrow> string \<Rightarrow> json \<Rightarrow> string \<Rightarrow> world \<Rightarrow> world" where
  "handle_free_design e from_number user_id description w =
     (let w1 = send_message e from_number msg_creating_free w in
      case free_design e description of
        DesignOk image_url prompt \<Rightarrow>
          (case db e DesignsInsert of
             Raise \<Rightarrow> w1
           | Empty \<Rightarrow> send_image e from_number image_url ''? Your custom jewelry design'' w1
           | Ok \<Rightarrow>
               send_interactive_buttons e from_number ''What would you like to do?''
                 (design_buttons e (new_id e))
                 (send_image e from_number image_url ''? Your custom jewelry design''
                    (update_user_session e user_id [(''last_design_id'', new_id e)]
                       (insert_row e Designs
                          [(''user_id'', user_id),
                           (''diamond_id'', JNull),
                           (''type'', JStr ''free_input''),
                           (''user_input'', JStr description),
                           (''generated_prompt'', prompt),
                           (''generated_image_url'', image_url),
                           (''status'', JStr ''completed''),
                           (''created_at'', JStr (now e))] w1))))
      | DesignFailed err \<Rightarrow>
          send_message e from_number
            (''? Failed to generate design: '' @ py_str e err) w1)"

definition handle_gia_custom_design ::
  "env \<Rightarrow> string \<Rightarrow> json \<Rightarrow> string \<Rightarrow> world \<Rightarrow> world" where
  "handle_gia_custom_design e from_number user_id description w =
     (let session = get_user_session e user_id w;
          diamond_id = dict_get session ''last_diamond_id''
      in if \<not> truthy diamond_id then send_message e from_number msg_no_diamond w
         else if db e DiamondsSelect = Raise then send_message e from_number msg_error w
         else
           (case select_eq Diamonds ''id'' diamond_id w of
              [] \<Rightarrow> send_message e from_number msg_diamond_not_found w
            | diamond_data # _ \<Rightarrow>
                (let w1 = send_message e from_number msg_creating_custom w;
                     caption =
                       ''? Custom design featuring your '' @
                       py_str e (dict_get diamond_data ''shape'') @ '' diamond''
                 in case gia_custom_design e diamond_data description of
                      DesignOk image_url prompt \<Rightarrow>
                        (case db e DesignsInsert of
                           Raise \<Rightarrow> send_message e from_number msg_error w1
                         | Empty \<Rightarrow>
                             send_message e from_number msg_error
                               (send_image e from_number image_url caption w1)
                         | Ok \<Rightarrow>
                             send_interactive_buttons e from_number
                               ''What would you like to do?''
                               (design_buttons e (new_id e))
                               (send_image e from_number image_url caption
                                  (update_user_session e user_id
                                     [(''last_design_id'', new_id e)]
                                     (insert_row e Designs
                                        [(''user_id'', user_id),
                                         (''diamond_id'', diamond_id),
                                         (''type'', JStr ''gia_custom''),
                                         (''user_input'', JStr description),
                                         (''generated_prompt'', prompt),
                                         (''generated_image_url'', image_url),
                                         (''status'', JStr ''completed''),
                                         (''created_at'', JStr (now e))] w1))))
                    | DesignFailed err \<Rightarrow>
                        send_message e from_number
                          (''? Failed to generate design: '' @ py_str e err) w1)))"

definition edit_record :: "env \<Rightarrow> json \<Rightarrow> dict \<Rightarrow> string \<Rightarrow> json \<Rightarrow> json \<Rightarrow> dict" where
  \<comment> \<open>\<^verbatim>\<open>design_record\<close> of \<^verbatim>\<open>handle_design_edit\<close>\<close>
  "edit_record e user_id previous_design edit_description prompt image_url =
     [(''user_id'', user_id),
      (''diamond_id'', dict_get previous_design ''diamond_id''),
      (''type'', JStr ''edit''),
      (''user_input'', JStr edit_description),
      (''previous_prompt'', dict_get previous_design ''generated_prompt''),
      (''generated_prompt'', prompt),
      (''generated_image_url'', image_url),
      (''status'', JStr ''completed''),
      (''created_at'', JStr (now e))]"

definition handle_design_edit :: "env \<Rightarrow> string \<Rightarrow> json \<Rightarrow> string \<Rightarrow> world \<Rightarrow> world" where
  "handle_design_edit e from_number user_id edit_description w =
     (let session = get_user_session e user_id w;
          design_id = dict_get session ''last_design_id''
      in if \<not> truthy design_id then
           send_message e from_number msg_no_previous_design_edit w
         else if db e DesignsSelect = Raise then send_message e from_number msg_error w
         else
           (case select_eq Designs ''id'' design_id w of
              [] \<Rightarrow> send_message e from_number msg_design_not_found w
            | previous_design # _ \<Rightarrow>
                (let original_prompt = dict_get previous_design ''generated_prompt'';
                     original_image = dict_get previous_design ''generated_image_url'';
                     w1 = send_message e from_number msg_applying_changes w
                 in case edit_design e original_prompt original_image edit_description of
                      DesignOk image_url prompt \<Rightarrow>
                        (case db e DesignsInsert of
                           Raise \<Rightarrow> send_message e from_number msg_error w1
                         | Empty \<Rightarrow>
                             send_image e from_number image_url ''? Updated design'' w1
                         | Ok \<Rightarrow>
                             send_image e from_number image_url ''? Updated design''
                               (update_user_session e user_id
                                  [(''last_design_id'', new_id e)]
                                  (insert_row e Designs
                                     (edit_record e user_id previous_design
                                        edit_description prompt image_url) w1)))
                    | DesignFailed err \<Rightarrow>
                        send_message e from_number
                          (''? Failed to edit design: '' @ py_str e err) w1)))"

definition variation_record :: "env \<Rightarrow> json \<Rightarrow> dict \<Rightarrow> json \<Rightarrow> json \<Rightarrow> dict" where
  \<comment> \<open>\<^verbatim>\<open>design_record\<close> of \<^verbatim>\<open>handle_design_variation\<close>\<close>
  "variation_record e user_id previous_design prompt image_url =
     [(''user_id'', user_id),
      (''diamond_id'', dict_get previous_design ''diamond_id''),
      (''type'', JStr ''variation''),
      (''previous_prompt'', dict_get previous_design ''generated_prompt''),
      (''generated_prompt'', prompt),
      (''generated_image_url'', image_url),
      (''status'', JStr ''completed''),
      (''created_at'', JStr (now e))]"

definition handle_design_variation :: "env \<Rightarrow> string \<Rightarrow> json \<Rightarrow> world \<Rightarrow> world" where
  "handle_design_variation e from_number user_id w =
     (let session = get_user_session e user_id w;
          design_id = dict_get session ''last_design_id''
      in if \<not> truthy design_id then send_message e from_number msg_no_previous_design w
         else if db e DesignsSelect = Raise then send_message e from_number msg_error w
         else
           (case select_eq Designs ''id'' design_id w of
              [] \<Rightarrow> send_message e from_number msg_design_not_found w
            | previous_design # _ \<Rightarrow>
                (let original_prompt = dict_get previous_design ''generated_prompt'';
                     w1 = send_message e from_number msg_generating_variation w
                 in case create_variation e original_prompt of
                      DesignOk image_url prompt \<Rightarrow>
                        (case db e DesignsInsert of
                           Raise \<Rightarrow> send_message e from_number msg_error w1
                         | Empty \<Rightarrow>
                             send_image e from_number image_url ''? Design variation'' w1
                         | Ok \<Rightarrow>
                             send_image e from_number image_url ''? Design variation''
                               (update_user_session e user_id
                                  [(''last_design_id'', new_id e)]
                                  (insert_row e Designs
                                     (variation_record e user_id previous_design
                                        prompt image_url) w1)))
                    | DesignFailed err \<Rightarrow>
                        send_message e from_number
                          (''? Failed to create variation: '' @ py_str e err) w1)))"

definition handle_360_view :: "env \<Rightarrow> string \<Rightarrow> json \<Rightarrow> string \<Rightarrow> world \<Rightarrow> world" where
  "handle_360_view e from_number user_id design_id w =
     (if db e DesignsSelect = Raise then send_message e from_number msg_error w
      else
        (case select_eq Designs ''id'' (JStr design_id) w of
           [] \<Rightarrow> send_message e from_number msg_design_not_found w
         | design_data # _ \<Rightarrow>
             (let original_prompt = dict_get design_data ''generated_prompt'';
                  original_image = dict_get design_data ''generated_image_url'';
                  w1 = send_message e from_number msg_generating_360 w
              in case generate_360_view e original_prompt original_image of
                   ViewOk images \<Rightarrow>
                     fold (\<lambda>(angle, image_url).
                             send_image e from_number image_url
                               (''View: '' @ angle @ [CHR 0xB0]))
                       images w1
                 | ViewFailed err \<Rightarrow>
                     send_message e from_number
                       (''? Failed to generate 360'' @ [CHR 0xB0] @ '' view: '' @ py_str e err) w1)))"

definition improvements_text :: "env \<Rightarrow> dict \<Rightarrow> string" where
  "improvements_text e diamond_data =
     ''? *Diamond Enhancement Analysis*'' @ [CHR 0x0A, CHR 0x0A] @
       ''Current Specifications:'' @ [CHR 0x0A] @ ''? Shape: '' @
     py_str e (dict_get_default diamond_data ''shape'' (JStr ''N/A'')) @
     [CHR 0x0A] @ ''? Carat: '' @
     py_str e (dict_get_default diamond_data ''carat'' (JStr ''N/A'')) @
     [CHR 0x0A] @ ''? Color: '' @
     py_str e (dict_get_default diamond_data ''primary_hue'' (JStr ''N/A'')) @
     [CHR 0x0A] @ ''? Clarity: '' @
     py_str e (dict_get_default diamond_data ''clarity'' (JStr ''N/A'')) @
     [CHR 0x0A] @ ''? Cut: '' @
     py_str e (dict_get_default diamond_data ''cut'' (JStr ''N/A'')) @
     [CHR 0x0A, CHR 0x0A] @ ''? Potential Enhancements:'' @ [CHR 0x0A] @
       ''[This feature will provide AI-powered recommendations for '' @
       ''diamond treatment, recut options, and value optimization '' @ ''strategies]'' @
       [CHR 0x0A, CHR 0x0A] @ ''Would you like to consult with our diamond experts?''"

definition handle_improve_diamond :: "env \<Rightarrow> string \<Rightarrow> json \<Rightarrow> world \<Rightarrow> world" where
  "handle_improve_diamond e from_number user_id w =
     (let session = get_user_session e user_id w;
          diamond_id = dict_get session ''last_diamond_id''
      in if \<not> truthy diamond_id then send_message e from_number msg_no_diamond w
         else if db e DiamondsSelect = Raise then send_message e from_number msg_error w
         else
           (case select_eq Diamonds ''id'' diamond_id w of
              [] \<Rightarrow> send_message e from_number msg_diamond_not_found w
            | diamond_data # _ \<Rightarrow>
                send_message e from_number (improvements_text e diamond_data) w))"

section \<open>Message handlers\<close>

text \<open>
  \<^verbatim>\<open>handle_text_message\<close>: the user is resolved, the session loaded, the incoming
  text saved, the intent detected, and the handler chosen by the intent alone.
\<close>

definition handle_text_message ::
  "env \<Rightarrow> string \<Rightarrow> string \<Rightarrow> world \<Rightarrow> py_error option \<times> world" where
  "handle_text_message e from_number text w =
     (case get_or_create_user e from_number w of
        (None, w0) \<Rightarrow> (None, send_message e from_number msg_error_connecting w0)
      | (Some user, w0) \<Rightarrow>
          (let user_id = dict_get user ''id'';
               session = get_user_session e user_id w0;
               w1 = save_message_to_db e user_id ''incoming'' ''text'' (JStr text)
                      JNull JNull w0;
               intent_result = detect e text session;
               intent = dict_get intent_result ''intent''
           in if intent = JStr ''search'' then
                (None, handle_search_query e from_number user_id text intent_result w1)
              else if intent = JStr ''design_free_input'' then
                (None, handle_free_design e from_number user_id text w1)
              else if intent = JStr ''design_with_gia'' then
                (if truthy (dict_get session ''last_diamond_id'')
                 then (None, handle_gia_custom_design e from_number user_id text w1)
                 else (None, send_message e from_number msg_need_gia_first w1))
              else if intent = JStr ''design_edit'' then
                (None, handle_design_edit e from_number user_id text w1)
              else if intent = JStr ''design_variation'' then
                (None, handle_design_variation e from_number user_id w1)
              else if intent = JStr ''listing_intent'' then
                handle_listing_flow e from_number user_id text session w1
              else if intent = JStr ''general_inquiry'' then
                (None, handle_general_inquiry e from_number user_id text w1)
              else send_main_menu e from_number user_id w1))"

text \<open>
  \<^verbatim>\<open>handle_voice_message\<close>. A transcription is passed on as a text message when its
  confidence is above 0.7.
\<close>

definition handle_voice_message ::
  "env \<Rightarrow> string \<Rightarrow> json \<Rightarrow> world \<Rightarrow> py_error option \<times> world" where
  "handle_voice_message e from_number media_id w =
     (case get_or_create_user e from_number w of
        (None, w0) \<Rightarrow> (None, w0)
      | (Some user, w0) \<Rightarrow>
          (let user_id = dict_get user ''id'';
               w1 = send_message e from_number msg_processing_voice w0
           in case download_whatsapp_media e media_id of
                None \<Rightarrow> (None, send_message e from_number msg_voice_download_failed w1)
              | Some voice_content \<Rightarrow>
                  (if voice_content = [] then
                     (None, send_message e from_number msg_voice_download_failed w1)
                   else
                     (case transcribe e voice_content of
                        Transcribed text confidence \<Rightarrow>
                          (let w2 = save_message_to_db e user_id ''incoming'' ''audio''
                                      (JStr text) JNull
                                      (JObj [(''confidence'', JNum confidence)]) w1
                           in if confidence > 7 / 10 then
                                handle_text_message e from_number text
                                  (send_message e from_number
                                     (''? Transcription: '' @ [CHR 0x22] @ text @
                                      [CHR 0x22, CHR 0x0A, CHR 0x0A] @
                                        ''Processing your request...'') w2)
                              else
                                (None,
                                 send_message e from_number
                                   (''? Transcription (low confidence): '' @ [CHR 0x22] @ text @
                                    [CHR 0x22, CHR 0x0A, CHR 0x0A] @
                                      ''Is this correct? Please confirm or rephrase.'')
                                   w2))
                      | NotTranscribed \<Rightarrow>
                          (None, send_message e from_number msg_voice_failed w1)))))"

text \<open>
  \<^verbatim>\<open>handle_document_message\<close>: a document is always taken as a certificate. The
  diamond is stored when the extraction reports success, and the session is then
  moved to \<^verbatim>\<open>gia_menu\<close> whatever its step was.
\<close>

definition document_diamond_record :: "env \<Rightarrow> json \<Rightarrow> json \<Rightarrow> dict \<Rightarrow> dict" where
  "document_diamond_record e upload_id user_id diamond_data =
     [(''upload_id'', upload_id),
      (''user_id'', user_id),
      (''shape'', dict_get diamond_data ''shape''),
      (''carat'', dict_get diamond_data ''carat''),
      (''color_type'', dict_get diamond_data ''color_type''),
      (''primary_hue'', dict_get diamond_data ''primary_hue''),
      (''modifier'', dict_get diamond_data ''modifier''),
      (''intensity'', dict_get diamond_data ''intensity''),
      (''clarity'', dict_get diamond_data ''clarity''),
      (''cut'', dict_get diamond_data ''cut''),
      (''polish'', dict_get diamond_data ''polish''),
      (''symmetry'', dict_get diamond_data ''symmetry''),
      (''fluorescence'', dict_get diamond_data ''fluorescence''),
      (''certificate_number'',
         if truthy (dict_get diamond_data ''report_number'')
         then dict_get diamond_data ''report_number''
         else dict_get diamond_data ''certificate_number''),
      (''parsed_confidence'', dict_get_default diamond_data ''confidence'' (JNum (95 / 100))),
      (''created_at'', JStr (now e))]"

definition data_dict :: "dict \<Rightarrow> dict" where
  \<comment> \<open>\<^verbatim>\<open>gia_data.get("data")\<close> of a successful extraction, a dictionary\<close>
  "data_dict gia_data = (case dict_get gia_data ''data'' of JObj d \<Rightarrow> d | _ \<Rightarrow> [])"

definition extract_failed_text :: "env \<Rightarrow> dict \<Rightarrow> string" where
  \<comment> \<open>the reply to a document whose extraction failed, with the extractor's error\<close>
  "extract_failed_text e gia_data =
     ''? Failed to extract GIA data: '' @
     py_str e (dict_get_default gia_data ''error'' (JStr ''Unknown error'')) @
     [CHR 0x0A, CHR 0x0A] @ ''Please ensure the document is a valid GIA certificate.''"

definition handle_document_message ::
  "env \<Rightarrow> string \<Rightarrow> json \<Rightarrow> string \<Rightarrow> string \<Rightarrow> world \<Rightarrow> world" where
  "handle_document_message e from_number media_id filename mime_type w =
     (case get_or_create_user e from_number w of
        (None, w0) \<Rightarrow> w0
      | (Some user, w0) \<Rightarrow>
          (let user_id = dict_get user ''id'';
               w1 = send_message e from_number msg_processing_document w0
           in case download_whatsapp_media e media_id of
                None \<Rightarrow> send_message e from_number msg_document_download_failed w1
              | Some file_content \<Rightarrow>
                  (if file_content = [] then
                     send_message e from_number msg_document_download_failed w1
                   else
                     (case upload_to_supabase e file_content user_id filename ''document'' w1 of
                        ((upload_id, file_url), w2) \<Rightarrow>
                          (if \<not> truthy file_url then
                             send_message e from_number msg_document_failed w2
                           else
                             (let w3 = send_message e from_number msg_extracting w2;
                                  gia_data = extract_from_pdf e file_url
                              in if truthy (dict_get gia_data ''success'') then
                                   (let diamond_data = data_dict gia_data in
                                    case db e DiamondsInsert of
                                      Ok \<Rightarrow>
                                        send_gia_menu e from_number user_id diamond_data
                                          (update_user_session e user_id
                                             [(''last_diamond_id'', new_id e),
                                              (''step'', JStr ''gia_menu'')]
                                             (insert_row e Diamonds
                                                (document_diamond_record e upload_id
                                                   user_id diamond_data) w3))
                                    | Empty \<Rightarrow>
                                        send_message e from_number msg_save_diamond_failed w3
                                    | Raise \<Rightarrow>
                                        send_message e from_number msg_save_diamond_failed w3)
                                 else
                                   send_message e from_number
                                     (extract_failed_text e gia_data) w3))))))"

text \<open>
  \<^verbatim>\<open>handle_image_message\<close>. At step \<^verbatim>\<open>listing_media\<close> the image joins the
  listing; \<^verbatim>\<open>context.get\<close> and \<^verbatim>\<open>images.append\<close> are outside any \<^verbatim>\<open>try\<close>
  and raise \<^verbatim>\<open>AttributeError\<close> on a context that is no dictionary or on images
  that are no list. At any other step the image is read as a certificate; here the
  handler wants \<^verbatim>\<open>certificate_number\<close> in the extracted data.
\<close>

definition image_diamond_record :: "env \<Rightarrow> json \<Rightarrow> json \<Rightarrow> dict \<Rightarrow> dict" where
  "image_diamond_record e upload_id user_id diamond_data =
     [(''upload_id'', upload_id),
      (''user_id'', user_id),
      (''shape'', dict_get diamond_data ''shape''),
      (''carat'', dict_get diamond_data ''carat''),
      (''clarity'', dict_get diamond_data ''clarity''),
      (''cut'', dict_get diamond_data ''cut''),
      (''certificate_number'', dict_get diamond_data ''certificate_number''),
      (''created_at'', JStr (now e))]"

definition handle_image_message ::
  "env \<Rightarrow> string \<Rightarrow> json \<Rightarrow> world \<Rightarrow> py_error option \<times> world" where
  "handle_image_message e from_number media_id w =
     (case get_or_create_user e from_number w of
        (None, w0) \<Rightarrow> (None, w0)
      | (Some user, w0) \<Rightarrow>
          (let user_id = dict_get user ''id'';
               session = get_user_session e user_id w0;
               w1 = send_message e from_number msg_processing_image w0
           in case download_whatsapp_media e media_id of
                None \<Rightarrow> (None, send_message e from_number msg_image_download_failed w1)
              | Some image_content \<Rightarrow>
                  (if image_content = [] then
                     (None, send_message e from_number msg_image_download_failed w1)
                   else if dict_get session ''step'' = JStr ''listing_media'' then
                     (case upload_to_supabase e image_content user_id
                             (''listing_'' @ uuid4 e @ ''.jpg'') ''image'' w1 of
                        ((upload_id, file_url), w2) \<Rightarrow>
                          (if truthy file_url then
                             (case dict_get_default session ''context'' (JObj []) of
                                JObj context \<Rightarrow>
                                  (case dict_get_default context ''images'' (JArr []) of
                                     JArr images \<Rightarrow>
                                       (None,
                                        send_message e from_number
                                          (''? Image '' @
                                           str_nat (length (images @ [file_url])) @
                                           '' added! Send more images or type '' @
                                             [CHR 0x27] @ ''done'' @ [CHR 0x27] @
                                             '' to complete the listing.'')
                                          (update_user_session e user_id
                                             [(''context'',
                                               JObj (dict_set ''images''
                                                       (JArr (images @ [file_url]))
                                                       context))] w2))
                                   | _ \<Rightarrow> (Some AttributeError, w2))
                              | _ \<Rightarrow> (Some AttributeError, w2))
                           else (None, w2)))
                   else
                     (case upload_to_supabase e image_content user_id
                             (''image_'' @ uuid4 e @ ''.jpg'') ''image'' w1 of
                        ((upload_id, file_url), w2) \<Rightarrow>
                          (if \<not> truthy file_url then
                             (None, send_message e from_number msg_image_failed w2)
                           else
                             (let w3 = send_message e from_number msg_analyzing w2;
                                  gia_data = extract_from_image e file_url
                              in if truthy (dict_get gia_data ''success'') \<and>
                                    truthy (dict_get (data_dict gia_data) ''certificate_number'')
                                 then
                                   (let diamond_data = data_dict gia_data in
                                    case db e DiamondsInsert of
                                      Ok \<Rightarrow>
                                        (None,
                                         send_gia_menu e from_number user_id diamond_data
                                           (update_user_session e user_id
                                              [(''last_diamond_id'', new_id e),
                                               (''step'', JStr ''gia_menu'')]
                                              (insert_row e Diamonds
                                                 (image_diamond_record e upload_id
                                                    user_id diamond_data) w3)))
                                    | Empty \<Rightarrow> (None, w3)
                                    | Raise \<Rightarrow> (None, w3))
                                 else
                                   (None, send_message e from_number msg_not_gia w3)))))))"

text \<open>
  \<^verbatim>\<open>handle_button_response\<close>. The chain of comparisons is kept in the order of the
  source; its second test for \<^verbatim>\<open>design_jewelry\<close> comes after the first. An id that
  is no text raises at \<^verbatim>\<open>startswith\<close>.
\<close>

definition handle_button_response ::
  "env \<Rightarrow> string \<Rightarrow> json \<Rightarrow> world \<Rightarrow> py_error option \<times> world" where
  "handle_button_response e from_number button_id w =
     (case get_or_create_user e from_number w of
        (None, w0) \<Rightarrow> (None, w0)
      | (Some user, w0) \<Rightarrow>
          (let user_id = dict_get user ''id'' in
           if button_id = JStr ''upload_gia'' then
             (None, send_message e from_number msg_upload_gia w0)
           else if button_id = JStr ''design_jewelry'' then
             (None, send_message e from_number msg_design_jewelry w0)
           else if button_id = JStr ''search_diamonds'' then
             (None, send_message e from_number msg_search_diamonds w0)
           else if button_id = JStr ''general_inquiry'' then
             (None, send_message e from_number msg_general_inquiry w0)
           else if button_id = JStr ''list_for_sale'' then
             (None, handle_list_for_sale e from_number user_id w0)
           else if button_id = JStr ''design_jewelry'' then
             (None, handle_auto_design e from_number user_id w0)
           else if button_id = JStr ''improve_diamond'' then
             (None, handle_improve_diamond e from_number user_id w0)
           else if button_id = JStr ''view_more_results'' then
             (None, handle_view_more_results e from_number user_id w0)
           else
             (case button_id of
                JStr b \<Rightarrow>
                  (if startswith b ''design_360_'' then
                     (None,
                      handle_360_view e from_number user_id
                        (remove_all ''design_360_'' b) w0)
                   else (None, send_message e from_number msg_unknown_option w0))
              | _ \<Rightarrow> (Some AttributeError, w0))))"

section \<open>The webhook\<close>

text \<open>
  One message of a webhook delivery, as \<^verbatim>\<open>handle_webhook\<close> reads it: the text body,
  the media id of an audio, a document (with file name and MIME type) or an image, the
  \<^verbatim>\<open>button_reply\<close> and \<^verbatim>\<open>list_reply\<close> of an interactive message, or another type.
\<close>

datatype inbound =
    InText string
  | InAudio json
  | InDocument json string string
  | InImage json
  | InInteractive dict dict
  | InOther

definition dispatch :: "env \<Rightarrow> string \<Rightarrow> inbound \<Rightarrow> world \<Rightarrow> py_error option \<times> world" where
  \<comment> \<open>the body of the \<^verbatim>\<open>try\<close> in \<^verbatim>\<open>handle_webhook\<close>\<close>
  "dispatch e from_number msg w =
     (case msg of
        InText text \<Rightarrow> handle_text_message e from_number text w
      | InAudio media_id \<Rightarrow> handle_voice_message e from_number media_id w
      | InDocument media_id filename mime_type \<Rightarrow>
          (None, handle_document_message e from_number media_id filename mime_type w)
      | InImage media_id \<Rightarrow> handle_image_message e from_number media_id w
      | InInteractive button_reply list_reply \<Rightarrow>
          (if button_reply \<noteq> [] then
             handle_button_response e from_number (dict_get button_reply ''id'') w
           else if list_reply \<noteq> [] then
             handle_button_response e from_number (dict_get list_reply ''id'') w
           else (None, w))
      | InOther \<Rightarrow> (None, send_message e from_number msg_unsupported w))"

definition handle_message :: "env \<Rightarrow> string \<Rightarrow> inbound \<Rightarrow> world \<Rightarrow> world" where
  \<comment> \<open>one round of the loop over the messages: what is raised is answered and dropped\<close>
  "handle_message e from_number msg w =
     (case dispatch e from_number msg w of
        (None, w') \<Rightarrow> w'
      | (Some err, w') \<Rightarrow> send_message e from_number msg_processing_error w')"

section \<open>Properties: auxiliary definitions\<close>

text \<open>
  The partial merge in the words of the specification: a session column takes the value
  the update gives under its key when the key is present, every other column of the row
  keeps its value.
\<close>

definition merged :: "dict \<Rightarrow> dict \<Rightarrow> string \<Rightarrow> json" where
  "merged updates r c =
     (if c = ''last_design_id'' \<and> has_key updates ''last_design_id''
        then dict_get updates ''last_design_id''
      else if c = ''last_diamond_id'' \<and> has_key updates ''last_diamond_id''
        then dict_get updates ''last_diamond_id''
      else if c = ''session_context'' \<and> has_key updates ''context''
        then dict_get updates ''context''
      else if c = ''session_step'' \<and> has_key updates ''step''
        then dict_get updates ''step''
      else dict_get r c)"

text \<open>
  The step transitions a message can cause in a stored session: none; the two forward
  moves and the final reset of the listing flow; the restart at \<^verbatim>\<open>listing_price\<close>
  by the button \<^verbatim>\<open>list_for_sale\<close>; the restart at \<^verbatim>\<open>gia_menu\<close> by a document or
  an image.
\<close>

fun list_for_sale_button :: "inbound \<Rightarrow> bool" where
  "list_for_sale_button (InInteractive button_reply list_reply) =
     (if button_reply \<noteq> [] then dict_get button_reply ''id'' = JStr ''list_for_sale''
      else list_reply \<noteq> [] \<and> dict_get list_reply ''id'' = JStr ''list_for_sale'')"
| "list_for_sale_button _ = False"

fun carries_media :: "inbound \<Rightarrow> bool" where
  "carries_media (InDocument media_id filename mime_type) = True"
| "carries_media (InImage media_id) = True"
| "carries_media _ = False"

fun carries_text :: "inbound \<Rightarrow> bool" where
  "carries_text (InText text) = True"
| "carries_text (InAudio media_id) = True"
| "carries_text _ = False"

definition transition :: "inbound \<Rightarrow> json \<Rightarrow> json \<Rightarrow> bool" where
  "transition msg s s' =
     (s' = s \<or>
      (carries_text msg \<and> s = JStr ''listing_price'' \<and> s' = JStr ''listing_contact'') \<or>
      (carries_text msg \<and> s = JStr ''listing_contact'' \<and> s' = JStr ''listing_media'') \<or>
      (carries_text msg \<and> s = JStr ''listing_media'' \<and> s' = JStr ''idle'') \<or>
      (list_for_sale_button msg \<and> s' = JStr ''listing_price'') \<or>
      (carries_media msg \<and> s' = JStr ''gia_menu''))"

definition step_rank :: "json \<Rightarrow> nat option" where
  \<comment> \<open>the flow order idle, gia_menu, listing_price, listing_contact, listing_media\<close>
  "step_rank s =
     (if s = JStr ''idle'' then Some 0
      else if s = JStr ''gia_menu'' then Some 1
      else if s = JStr ''listing_price'' then Some 2
      else if s = JStr ''listing_contact'' then Some 3
      else if s = JStr ''listing_media'' then Some 4
      else None)"

definition user_ids :: "world \<Rightarrow> json list" where
  "user_ids w = map (\<lambda>r. dict_get r ''id'') (tables w Users)"

subsection \<open>Example environments and worlds\<close>

definition env_ok :: env where
  "env_ok =
     \<lparr>now = ''2025-01-01T00:00:00'',
      new_id = JStr ''new-1'',
      db = (\<lambda>_. Ok),
      delivers = (\<lambda>_. True),
      raw_post_raises = False,
      fmt = (\<lambda>_. ''0''),
      uuid4 = ''0000'',
      download = (\<lambda>_. Some ''bytes''),
      public_url = (\<lambda>n. JStr (''https://files/'' @ n)),
      intent_api_key = None,
      intent_api = (\<lambda>_. None),
      search_entities = (\<lambda>_. JObj []),
      gia_api_key = None,
      vision_api = (\<lambda>_. Inr []),
      pdf_to_image = (\<lambda>u. Inr u),
      transcribe = (\<lambda>_. NotTranscribed),
      search = (\<lambda>_ _. SearchOk []),
      auto_design = (\<lambda>_. DesignFailed JNull),
      free_design = (\<lambda>_. DesignFailed JNull),
      gia_custom_design = (\<lambda>_ _. DesignFailed JNull),
      edit_design = (\<lambda>_ _ _. DesignOk (JStr ''https://img/edit'') (JStr ''edited prompt'')),
      create_variation = (\<lambda>_. DesignOk (JStr ''https://img/var'') (JStr ''varied prompt'')),
      generate_360_view = (\<lambda>_ _. ViewFailed JNull)\<rparr>"

definition user_row :: "string \<Rightarrow> string \<Rightarrow> json \<Rightarrow> json \<Rightarrow> json \<Rightarrow> json \<Rightarrow> dict" where
  "user_row uid number step context diamond design =
     [(''id'', JStr uid), (''whatsapp_number'', JStr number),
      (''session_step'', step), (''session_context'', context),
      (''last_diamond_id'', diamond), (''last_design_id'', design)]"

definition world_of :: "dict list \<Rightarrow> dict list \<Rightarrow> world" where
  \<comment> \<open>a world with the given users and designs and nothing else\<close>
  "world_of us ds =
     \<lparr>tables = (\<lambda>t. if t = Users then us else if t = Designs then ds else []),
      outbox = []\<rparr>"

definition env_gia_intent :: env where
  \<comment> \<open>the intent service is configured and answers \<^verbatim>\<open>design_with_gia\<close>\<close>
  "env_gia_intent =
     env_ok\<lparr>intent_api_key := Some ''key'',
            intent_api := (\<lambda>_. Some [(''intent'', JStr ''design_with_gia'')])\<rparr>"

definition design_row :: "string \<Rightarrow> string \<Rightarrow> dict" where
  "design_row did prompt =
     [(''id'', JStr did), (''diamond_id'', JNull), (''type'', JStr ''free_input''),
      (''generated_prompt'', JStr prompt),
      (''generated_image_url'', JStr ''https://img/first'')]"

definition env_no_report :: env where
  \<comment> \<open>the vision service answers with every field but the report number\<close>
  "env_no_report =
     env_ok\<lparr>gia_api_key := Some ''key'',
            vision_api := (\<lambda>_. Inr [(''shape'', JStr ''Round Brilliant''),
                                   (''carat'', JNum 1),
                                   (''color'', JStr ''E''),
                                   (''clarity'', JStr ''VS2''),
                                   (''cut'', JStr ''Excellent''),
                                   (''certificate_number'', JStr ''2141438171'')])\<rparr>"

section \<open>Basic facts about the store\<close>

lemma dict_get_simps [simp]:
  "dict_get [] k = JNull"
  "dict_get ((k', v) # d) k = (if k = k' then v else dict_get d k)"
  by (simp_all add: dict_get_def)

lemma dict_get_default_simps [simp]:
  "dict_get_default [] k dflt = dflt"
  "dict_get_default ((k', v) # d) k dflt = (if k = k' then v else dict_get_default d k dflt)"
  by (simp_all add: dict_get_default_def)

lemma map_of_override:
  "map_of (override r upd) = (map_of r)(map fst upd [\<mapsto>] map snd upd)"
  by (simp add: override_def updates_conv')

lemma dict_get_override_session:
  "dict_get (override r (session_columns updates)) c = merged updates r c"
  by (simp add: dict_get_def map_of_override session_columns_def merged_def)

lemma dict_get_override_other:
  "\<not> has_key upd c \<Longrightarrow> dict_get (override r upd) c = dict_get r c"
  by (simp add: dict_get_def map_of_override has_key_def map_of_eq_None_iff)

lemma session_columns_no_id: "\<not> has_key (session_columns updates) ''id''"
  by (simp add: session_columns_def has_key_def)

lemma session_columns_Nil [simp]: "session_columns [] = []"
  by (simp add: session_columns_def has_key_def)

lemma merged_no_columns:
  "session_columns updates = [] \<Longrightarrow> merged updates r c = dict_get r c"
  by (simp add: session_columns_def merged_def split: if_splits)

lemma merged_step_context:
  "merged [(''step'', a), (''context'', b)] r ''session_step'' = a"
  "merged [(''step'', a), (''context'', b)] r ''session_context'' = b"
  "merged [(''step'', a), (''context'', b)] r ''last_diamond_id'' = dict_get r ''last_diamond_id''"
  "merged [(''step'', a), (''context'', b)] r ''last_design_id'' = dict_get r ''last_design_id''"
  by (simp_all add: merged_def has_key_def dict_get_def)

lemma merged_last_design:
  "merged [(''last_design_id'', a)] r ''session_step'' = dict_get r ''session_step''"
  "merged [(''last_design_id'', a)] r ''session_context'' = dict_get r ''session_context''"
  "merged [(''last_design_id'', a)] r ''last_diamond_id'' = dict_get r ''last_diamond_id''"
  "merged [(''last_design_id'', a)] r ''last_design_id'' = a"
  by (simp_all add: merged_def has_key_def dict_get_def)

lemma post_frame [simp]:
  "tables (post e m w) = tables w"
  "outbox (post e m w) = outbox w @ [(m, delivers e m)]"
  by (simp_all add: post_def)

lemma send_message_frame [simp]:
  "tables (send_message e to text w) = tables w"
  "outbox (send_message e to text w) = outbox w @ [(Text to text, delivers e (Text to text))]"
  by (simp_all add: send_message_def)

lemma send_image_frame [simp]:
  "tables (send_image e to url caption w) = tables w"
  "outbox (send_image e to url caption w) =
     outbox w @ [(Image to url caption, delivers e (Image to url caption))]"
  by (simp_all add: send_image_def)

lemma send_interactive_buttons_tables [simp]:
  "tables (send_interactive_buttons e to body buttons w) = tables w"
  by (simp add: send_interactive_buttons_def)

lemma insert_row_frame [simp]:
  "tables (insert_row e t row w) t' = (if t' = t then tables w t @ [stored e row] else tables w t')"
  "outbox (insert_row e t row w) = outbox w"
  by (simp_all add: insert_row_def)

lemma update_eq_frame [simp]:
  "outbox (update_eq t upd col v w) = outbox w"
  "tables (update_eq t upd col v w) t' =
     (if t' = t then map (\<lambda>r. if dict_get r col = v then override r upd else r) (tables w t)
      else tables w t')"
  by (simp_all add: update_eq_def)

lemma select_eq_cong: "tables w1 t = tables w2 t \<Longrightarrow> select_eq t c v w1 = select_eq t c v w2"
  by (simp add: select_eq_def)

lemma get_user_session_cong:
  "tables w1 Users = tables w2 Users \<Longrightarrow> get_user_session e u w1 = get_user_session e u w2"
  by (simp add: get_user_session_def select_eq_def)

lemma get_user_session_send_message:
  "get_user_session e u (send_message e' to text w) = get_user_session e u w"
  by (rule get_user_session_cong) simp

lemma get_user_session_send_image:
  "get_user_session e u (send_image e' to url caption w) = get_user_session e u w"
  by (rule get_user_session_cong) simp

lemma select_eq_update_eq_id:
  assumes "\<not> has_key upd ''id''"
  shows "select_eq Users ''id'' uid (update_eq Users upd ''id'' uid w) =
         map (\<lambda>r. override r upd) (select_eq Users ''id'' uid w)"
proof -
  have "filter (\<lambda>r. dict_get r ''id'' = uid)
          (map (\<lambda>r. if dict_get r ''id'' = uid then override r upd else r) rs) =
        map (\<lambda>r. override r upd) (filter (\<lambda>r. dict_get r ''id'' = uid) rs)" for rs
    by (induction rs) (simp_all add: dict_get_override_other [OF assms])
  then show ?thesis
    by (simp add: select_eq_def)
qed

lemma update_user_session_outbox [simp]:
  "outbox (update_user_session e uid upd w) = outbox w"
  by (simp add: update_user_session_def Let_def)

lemma update_user_session_other_tables [simp]:
  "t \<noteq> Users \<Longrightarrow> tables (update_user_session e uid upd w) t = tables w t"
  by (simp add: update_user_session_def Let_def)

lemma get_user_session_after_update:
  assumes "db e SessionSelect \<noteq> Raise" and "db e SessionUpdate \<noteq> Raise"
    and "select_eq Users ''id'' uid w = r # rs"
  shows "get_user_session e uid (update_user_session e uid upd w) =
           [(''step'', merged upd r ''session_step''),
            (''context'', merged upd r ''session_context''),
            (''last_diamond_id'', merged upd r ''last_diamond_id''),
            (''last_design_id'', merged upd r ''last_design_id'')]"
proof (cases "session_columns upd = []")
  case True
  then have "update_user_session e uid upd w = w"
    by (simp add: update_user_session_def)
  then show ?thesis
    using assms True by (simp add: get_user_session_def merged_no_columns)
next
  case False
  then have "update_user_session e uid upd w = update_eq Users (session_columns upd) ''id'' uid w"
    using assms by (simp add: update_user_session_def)
  then show ?thesis
    using assms
    by (simp add: get_user_session_def select_eq_update_eq_id [OF session_columns_no_id]
        dict_get_override_session)
qed

lemma lower_examples:
  "lower ''contact'' = ''contact''" "lower ''CONTACT'' = ''contact''"
  "lower ''5000'' = ''5000''" "lower ''done'' = ''done''" "lower ''Done'' = ''done''"
  "lower ''hello'' = ''hello''"
  by (simp_all add: lower_def lower_char_def char_of_def bit_iff_odd)

lemma dict_set_empty [simp]: "dict_set k v [] = [(k, v)]"
  by (simp add: dict_set_def)

lemma env_ok_simps [simp]:
  "db env_ok c = Ok" "new_id env_ok = JStr ''new-1''" "now env_ok = ''2025-01-01T00:00:00''"
  "delivers env_ok m = True" "intent_api_key env_ok = None" "gia_api_key env_ok = None"
  "search env_ok q r = SearchOk []" "raw_post_raises env_ok = False"
  "download env_ok i = Some ''bytes''" "public_url env_ok n = JStr (''https://files/'' @ n)"
  "edit_design env_ok p i d = DesignOk (JStr ''https://img/edit'') (JStr ''edited prompt'')"
  "create_variation env_ok p = DesignOk (JStr ''https://img/var'') (JStr ''varied prompt'')"
  "search_entities env_ok t = JObj []" "pdf_to_image env_ok u = Inr u" "uuid4 env_ok = ''0000''"
  by (simp_all add: env_ok_def)

lemma world_of_simps [simp]:
  "tables (world_of us ds) t = (if t = Users then us else if t = Designs then ds else [])"
  "outbox (world_of us ds) = []"
  by (simp_all add: world_of_def)

lemma select_user_row [simp]:
  "select_eq Users ''id'' (JStr uid) (world_of [user_row uid n s c d g] ds) =
     [user_row uid n s c d g]"
  by (simp add: select_eq_def user_row_def dict_get_def)

lemma select_user_row_number [simp]:
  "select_eq Users ''whatsapp_number'' (JStr n) (world_of [user_row uid n s c d g] ds) =
     [user_row uid n s c d g]"
  by (simp add: select_eq_def user_row_def dict_get_def)

lemma user_row_columns [simp]:
  "dict_get (user_row uid n s c d g) ''id'' = JStr uid"
  "dict_get (user_row uid n s c d g) ''session_step'' = s"
  "dict_get (user_row uid n s c d g) ''session_context'' = c"
  "dict_get (user_row uid n s c d g) ''last_diamond_id'' = d"
  "dict_get (user_row uid n s c d g) ''last_design_id'' = g"
  by (simp_all add: user_row_def dict_get_def)

lemma get_user_session_user_row [simp]:
  "get_user_session env_ok (JStr uid) (world_of [user_row uid n s c d g] ds) =
     [(''step'', s), (''context'', c), (''last_diamond_id'', d), (''last_design_id'', g)]"
  by (simp add: get_user_session_def)

section \<open>The session store\<close>

text \<open>
  C7. \<^verbatim>\<open>update_user_session\<close> is a partial merge. When the update of the store does
  not raise, every row of the user gets, column by column, the value \<^const>\<open>merged\<close>
  names: the update's value for the session columns whose key the update has (the
  context as given, not combined with the stored one), its own value for every other
  column. Rows of other users, the other tables and the outbox stay as they are, and
  an empty update returns the world it was given.
\<close>

theorem update_user_session_partial_merge:
  assumes "db e SessionUpdate \<noteq> Raise"
  shows "outbox (update_user_session e user_id updates w) = outbox w \<and>
         (\<forall>t. t \<noteq> Users \<longrightarrow> tables (update_user_session e user_id updates w) t = tables w t) \<and>
         length (tables (update_user_session e user_id updates w) Users) = length (tables w Users) \<and>
         (\<forall>i < length (tables w Users). \<forall>c.
            dict_get (tables (update_user_session e user_id updates w) Users ! i) c =
              (if dict_get (tables w Users ! i) ''id'' = user_id
               then merged updates (tables w Users ! i) c
               else dict_get (tables w Users ! i) c)) \<and>
         (updates = [] \<longrightarrow> update_user_session e user_id updates w = w)"
proof (cases "session_columns updates = []")
  case True
  then have "update_user_session e user_id updates w = w"
    by (simp add: update_user_session_def)
  then show ?thesis
    using True by (simp add: merged_no_columns update_user_session_def)
next
  case False
  then have eq: "update_user_session e user_id updates w =
      update_eq Users (session_columns updates) ''id'' user_id w"
    using assms by (simp add: update_user_session_def)
  have "updates \<noteq> []"
    using False by auto
  then show ?thesis
    unfolding eq by (simp add: dict_get_override_session)
qed

theorem update_user_session_partial_merge_witness:
  "dict_get (tables (update_user_session env_ok (JStr ''u1'') [(''step'', JStr ''idle'')]
       (world_of [user_row ''u1'' ''15550001'' (JStr ''listing_media'')
          (JObj [(''price'', JStr ''5000'')]) (JStr ''d1'') JNull] [])) Users ! 0)
     ''session_step'' = JStr ''idle'' \<and>
   dict_get (tables (update_user_session env_ok (JStr ''u1'') [(''step'', JStr ''idle'')]
       (world_of [user_row ''u1'' ''15550001'' (JStr ''listing_media'')
          (JObj [(''price'', JStr ''5000'')]) (JStr ''d1'') JNull] [])) Users ! 0)
     ''session_context'' = JObj [(''price'', JStr ''5000'')] \<and>
   update_user_session env_ok (JStr ''u1'') []
       (world_of [user_row ''u1'' ''15550001'' (JStr ''listing_media'')
          (JObj [(''price'', JStr ''5000'')]) (JStr ''d1'') JNull] []) =
     world_of [user_row ''u1'' ''15550001'' (JStr ''listing_media'')
          (JObj [(''price'', JStr ''5000'')]) (JStr ''d1'') JNull] []"
proof -
  have h: "db env_ok SessionUpdate \<noteq> Raise"
    by simp
  let ?w = "world_of [user_row ''u1'' ''15550001'' (JStr ''listing_media'')
          (JObj [(''price'', JStr ''5000'')]) (JStr ''d1'') JNull] []"
  have m: "merged [(''step'', JStr ''idle'')] r ''session_step'' = JStr ''idle''"
    "merged [(''step'', JStr ''idle'')] r ''session_context'' = dict_get r ''session_context''" for r
    by (simp_all add: merged_def has_key_def dict_get_def)
  show ?thesis
    using update_user_session_partial_merge [OF h, of "JStr ''u1''" "[(''step'', JStr ''idle'')]" ?w]
      update_user_session_partial_merge [OF h, of "JStr ''u1''" "[]" ?w]
    by (simp add: m)
qed

section \<open>The listing flow\<close>

lemma listing_step_distinct:
  "JStr ''listing_media'' \<noteq> JStr ''listing_price''"
  "JStr ''listing_media'' \<noteq> JStr ''listing_contact''"
  "JStr ''listing_contact'' \<noteq> JStr ''listing_price''"
  by simp_all


lemma handle_listing_flow_contact:
  assumes "dict_get session ''step'' = JStr ''listing_contact''"
    and "dict_get_default session ''context'' (JObj []) = JObj context"
  shows "handle_listing_flow e from_number user_id text session w =
     (None,
      send_message e from_number msg_ask_images
        (update_user_session e user_id
           [(''step'', JStr ''listing_media''),
            (''context'', JObj (dict_set ''contact_info'' (JStr text) context))] w))"
  using assms by (simp add: handle_listing_flow_def Let_def listing_step_distinct)

lemma handle_listing_flow_done:
  assumes "dict_get session ''step'' = JStr ''listing_media''"
    and "dict_get_default session ''context'' (JObj []) = JObj context"
    and "lower text = ''done''"
  shows "handle_listing_flow e from_number user_id text session w =
     (if \<not> truthy (dict_get_default context ''images'' (JArr []))
      then (None, send_message e from_number msg_need_image w)
      else
        (case db e ListingsInsert of
           Raise \<Rightarrow> (None, send_message e from_number msg_listing_failed w)
         | Empty \<Rightarrow>
             (None,
              update_user_session e user_id
                [(''step'', JStr ''idle''), (''context'', JObj [])]
                (send_message e from_number msg_listing_created w))
         | Ok \<Rightarrow>
             (None,
              update_user_session e user_id
                [(''step'', JStr ''idle''), (''context'', JObj [])]
                (send_message e from_number msg_listing_created
                   (insert_row e Listings
                      (listing_data e user_id session context
                         (dict_get_default context ''images'' (JArr []))) w)))))"
  using assms by (simp add: handle_listing_flow_def Let_def listing_step_distinct)


lemma session_after_step_context:
  assumes "db e SessionSelect \<noteq> Raise" and "db e SessionUpdate \<noteq> Raise"
    and "select_eq Users ''id'' uid w \<noteq> []"
  shows "dict_get (get_user_session e uid
            (update_user_session e uid [(''step'', a), (''context'', b)] w)) ''step'' = a"
    and "dict_get (get_user_session e uid
            (update_user_session e uid [(''step'', a), (''context'', b)] w)) ''context'' = b"
proof -
  obtain r rs where r: "select_eq Users ''id'' uid w = r # rs"
    using assms(3) by (cases "select_eq Users ''id'' uid w") auto
  show "dict_get (get_user_session e uid
            (update_user_session e uid [(''step'', a), (''context'', b)] w)) ''step'' = a"
    by (simp add: get_user_session_after_update [OF assms(1,2) r] merged_step_context
        dict_get_def)
  show "dict_get (get_user_session e uid
            (update_user_session e uid [(''step'', a), (''context'', b)] w)) ''context'' = b"
    by (simp add: get_user_session_after_update [OF assms(1,2) r] merged_step_context
        dict_get_def)
qed






text \<open>
  C1. At step \<^verbatim>\<open>listing_media\<close>, with a dictionary as context, the text
  \<^verbatim>\<open>done\<close> makes \<^verbatim>\<open>handle_listing_flow\<close> add a listing only if the images of the
  context are non-empty, and, when the insert of the store succeeds, exactly if they
  are. With no image the only effect is the warning: the tables, and so the stored
  step and context, are as before. With images and a successful insert the listings
  grow by one row built from the user, the session's \<^verbatim>\<open>last_diamond_id\<close> and the
  context's price, contact and images, and the stored session of the user, read back
  from a store that answers, is at step \<^verbatim>\<open>idle\<close> with an empty context.
\<close>

theorem listing_done_creates_iff_images:
  assumes "dict_get session ''step'' = JStr ''listing_media''"
    and "dict_get_default session ''context'' (JObj []) = JObj context"
    and "images = dict_get_default context ''images'' (JArr [])"
    and "w' = snd (handle_listing_flow e from_number user_id ''done'' session w)"
  shows "((\<exists>row. tables w' Listings = tables w Listings @ [row]) \<longrightarrow> truthy images) \<and>
         (db e ListingsInsert = Ok \<longrightarrow>
            ((\<exists>row. tables w' Listings = tables w Listings @ [row]) \<longleftrightarrow> truthy images)) \<and>
         (\<not> truthy images \<longrightarrow>
            tables w' = tables w \<and>
            outbox w' = outbox w @ [(Text from_number msg_need_image,
                                     delivers e (Text from_number msg_need_image))]) \<and>
         (truthy images \<and> db e ListingsInsert = Ok \<longrightarrow>
            (\<exists>row. tables w' Listings = tables w Listings @ [row] \<and>
               dict_get row ''user_id'' = user_id \<and>
               dict_get row ''diamond_id'' = dict_get session ''last_diamond_id'' \<and>
               dict_get row ''price'' = dict_get context ''price'' \<and>
               dict_get row ''contact_info'' = dict_get context ''contact_info'' \<and>
               dict_get row ''images'' = images \<and>
               dict_get row ''status'' = JStr ''pending_review'') \<and>
            (db e SessionSelect \<noteq> Raise \<and> db e SessionUpdate \<noteq> Raise \<and>
             select_eq Users ''id'' user_id w \<noteq> [] \<longrightarrow>
               dict_get (get_user_session e user_id w') ''step'' = JStr ''idle'' \<and>
               dict_get (get_user_session e user_id w') ''context'' = JObj []))"
proof -
  have run: "handle_listing_flow e from_number user_id ''done'' session w =
     (if \<not> truthy images
      then (None, send_message e from_number msg_need_image w)
      else
        (case db e ListingsInsert of
           Raise \<Rightarrow> (None, send_message e from_number msg_listing_failed w)
         | Empty \<Rightarrow>
             (None,
              update_user_session e user_id
                [(''step'', JStr ''idle''), (''context'', JObj [])]
                (send_message e from_number msg_listing_created w))
         | Ok \<Rightarrow>
             (None,
              update_user_session e user_id
                [(''step'', JStr ''idle''), (''context'', JObj [])]
                (send_message e from_number msg_listing_created
                   (insert_row e Listings
                      (listing_data e user_id session context images) w)))))"
    unfolding assms(3)
    by (rule handle_listing_flow_done [OF assms(1,2)]) (simp add: lower_examples)
  show ?thesis
  proof (cases "truthy images")
    case False
    then have "w' = send_message e from_number msg_need_image w"
      by (simp add: assms(4) run)
    then show ?thesis
      using False by simp
  next
    case True
    show ?thesis
    proof (cases "db e ListingsInsert")
      case Ok
      let ?row = "stored e (listing_data e user_id session context images)"
      let ?w1 = "send_message e from_number msg_listing_created
                   (insert_row e Listings (listing_data e user_id session context images) w)"
      have w': "w' = update_user_session e user_id
                  [(''step'', JStr ''idle''), (''context'', JObj [])] ?w1"
        using True Ok by (simp add: assms(4) run)
      have l: "tables w' Listings = tables w Listings @ [?row]"
        by (simp add: w')
      have f: "dict_get ?row ''user_id'' = user_id"
        "dict_get ?row ''diamond_id'' = dict_get session ''last_diamond_id''"
        "dict_get ?row ''price'' = dict_get context ''price''"
        "dict_get ?row ''contact_info'' = dict_get context ''contact_info''"
        "dict_get ?row ''images'' = images"
        "dict_get ?row ''status'' = JStr ''pending_review''"
        by (simp_all add: stored_def listing_data_def dict_get_def)
      have u: "select_eq Users ''id'' user_id ?w1 = select_eq Users ''id'' user_id w"
        by (rule select_eq_cong) simp
      have s: "db e SessionSelect \<noteq> Raise \<and> db e SessionUpdate \<noteq> Raise \<and>
             select_eq Users ''id'' user_id w \<noteq> [] \<longrightarrow>
               dict_get (get_user_session e user_id w') ''step'' = JStr ''idle'' \<and>
               dict_get (get_user_session e user_id w') ''context'' = JObj []"
        unfolding w' using session_after_step_context [of e user_id ?w1] u by simp
      show ?thesis
        using True Ok l f s by auto
    next
      case Empty
      then have "tables w' Listings = tables w Listings"
        using True by (simp add: assms(4) run)
      then show ?thesis
        using True Empty by simp
    next
      case Raise
      then have "tables w' Listings = tables w Listings"
        using True by (simp add: assms(4) run)
      then show ?thesis
        using True Raise by simp
    qed
  qed
qed

theorem listing_done_creates_iff_images_witness:
  "tables (snd (handle_listing_flow env_ok ''15550001'' (JStr ''u1'') ''done''
      [(''step'', JStr ''listing_media''),
       (''context'', JObj [(''price'', JStr ''5000'')]),
       (''last_diamond_id'', JStr ''d1''), (''last_design_id'', JNull)]
      (world_of [user_row ''u1'' ''15550001'' (JStr ''listing_media'')
         (JObj [(''price'', JStr ''5000'')]) (JStr ''d1'') JNull] []))) Listings = [] \<and>
   length (tables (snd (handle_listing_flow env_ok ''15550001'' (JStr ''u1'') ''done''
      [(''step'', JStr ''listing_media''),
       (''context'', JObj [(''price'', JStr ''5000''),
          (''images'', JArr [JStr ''https://files/a.jpg''])]),
       (''last_diamond_id'', JStr ''d1''), (''last_design_id'', JNull)]
      (world_of [user_row ''u1'' ''15550001'' (JStr ''listing_media'')
         (JObj [(''price'', JStr ''5000''),
            (''images'', JArr [JStr ''https://files/a.jpg''])]) (JStr ''d1'') JNull] [])))
      Listings) = 1 \<and>
   dict_get (get_user_session env_ok (JStr ''u1'')
     (snd (handle_listing_flow env_ok ''15550001'' (JStr ''u1'') ''done''
      [(''step'', JStr ''listing_media''),
       (''context'', JObj [(''price'', JStr ''5000''),
          (''images'', JArr [JStr ''https://files/a.jpg''])]),
       (''last_diamond_id'', JStr ''d1''), (''last_design_id'', JNull)]
      (world_of [user_row ''u1'' ''15550001'' (JStr ''listing_media'')
         (JObj [(''price'', JStr ''5000''),
            (''images'', JArr [JStr ''https://files/a.jpg''])]) (JStr ''d1'') JNull] []))))
     ''step'' = JStr ''idle''"
proof -
  let ?c0 = "[(''price'', JStr ''5000'')]"
  let ?c1 = "[(''price'', JStr ''5000''), (''images'', JArr [JStr ''https://files/a.jpg''])]"
  let ?s0 = "[(''step'', JStr ''listing_media''), (''context'', JObj ?c0),
              (''last_diamond_id'', JStr ''d1''), (''last_design_id'', JNull)]"
  let ?s1 = "[(''step'', JStr ''listing_media''), (''context'', JObj ?c1),
              (''last_diamond_id'', JStr ''d1''), (''last_design_id'', JNull)]"
  let ?w0 = "world_of [user_row ''u1'' ''15550001'' (JStr ''listing_media'') (JObj ?c0)
               (JStr ''d1'') JNull] []"
  let ?w1 = "world_of [user_row ''u1'' ''15550001'' (JStr ''listing_media'') (JObj ?c1)
               (JStr ''d1'') JNull] []"
  have a0: "dict_get ?s0 ''step'' = JStr ''listing_media''"
    "dict_get_default ?s0 ''context'' (JObj []) = JObj ?c0"
    "JArr [] = dict_get_default ?c0 ''images'' (JArr [])"
    by (simp_all add: dict_get_def dict_get_default_def)
  have a1: "dict_get ?s1 ''step'' = JStr ''listing_media''"
    "dict_get_default ?s1 ''context'' (JObj []) = JObj ?c1"
    "JArr [JStr ''https://files/a.jpg''] = dict_get_default ?c1 ''images'' (JArr [])"
    by (simp_all add: dict_get_def dict_get_default_def)
  show ?thesis
    using listing_done_creates_iff_images [OF a0 refl, of env_ok "''15550001''" "JStr ''u1''" ?w0]
      listing_done_creates_iff_images [OF a1 refl, of env_ok "''15550001''" "JStr ''u1''" ?w1]
    by auto
qed

section \<open>Design lineage\<close>

lemma session_after_last_design:
  assumes "db e SessionSelect \<noteq> Raise" and "db e SessionUpdate \<noteq> Raise"
    and "select_eq Users ''id'' uid w \<noteq> []"
  shows "dict_get (get_user_session e uid
            (update_user_session e uid [(''last_design_id'', a)] w)) ''last_design_id'' = a"
proof -
  obtain r rs where r: "select_eq Users ''id'' uid w = r # rs"
    using assms(3) by (cases "select_eq Users ''id'' uid w") auto
  show ?thesis
    by (simp add: get_user_session_after_update [OF assms(1,2) r] merged_last_design
        dict_get_def)
qed

lemma handle_design_edit_ok:
  assumes "db e DesignsSelect \<noteq> Raise" and "db e DesignsInsert = Ok"
    and "truthy (dict_get (get_user_session e user_id w) ''last_design_id'')"
    and "select_eq Designs ''id'' (dict_get (get_user_session e user_id w) ''last_design_id'') w =
           previous_design # rest"
    and "edit_design e (dict_get previous_design ''generated_prompt'')
           (dict_get previous_design ''generated_image_url'') edit_description =
         DesignOk image_url prompt"
  shows "handle_design_edit e from_number user_id edit_description w =
     send_image e from_number image_url ''? Updated design''
       (update_user_session e user_id [(''last_design_id'', new_id e)]
          (insert_row e Designs
             (edit_record e user_id previous_design edit_description prompt image_url)
             (send_message e from_number msg_applying_changes w)))"
  using assms by (simp add: handle_design_edit_def Let_def)

lemma handle_design_variation_ok:
  assumes "db e DesignsSelect \<noteq> Raise" and "db e DesignsInsert = Ok"
    and "truthy (dict_get (get_user_session e user_id w) ''last_design_id'')"
    and "select_eq Designs ''id'' (dict_get (get_user_session e user_id w) ''last_design_id'') w =
           previous_design # rest"
    and "create_variation e (dict_get previous_design ''generated_prompt'') =
         DesignOk image_url prompt"
  shows "handle_design_variation e from_number user_id w =
     send_image e from_number image_url ''? Design variation''
       (update_user_session e user_id [(''last_design_id'', new_id e)]
          (insert_row e Designs
             (variation_record e user_id previous_design prompt image_url)
             (send_message e from_number msg_generating_variation w)))"
  using assms by (simp add: handle_design_variation_def Let_def)

lemma design_record_columns:
  "dict_get (stored e (edit_record e u p d pr im)) ''previous_prompt'' =
     dict_get p ''generated_prompt''"
  "dict_get (stored e (edit_record e u p d pr im)) ''id'' = new_id e"
  "dict_get (stored e (edit_record e u p d pr im)) ''generated_prompt'' = pr"
  "dict_get (stored e (variation_record e u p pr im)) ''previous_prompt'' =
     dict_get p ''generated_prompt''"
  "dict_get (stored e (variation_record e u p pr im)) ''id'' = new_id e"
  "dict_get (stored e (variation_record e u p pr im)) ''generated_prompt'' = pr"
  by (simp_all add: stored_def edit_record_def variation_record_def dict_get_def)

text \<open>
  C5. Let the session of a stored user name a last design, let the store hold that
  design with generated prompt \<open>P\<close>, and let the store answer. When the generator
  returns an edit, \<^verbatim>\<open>handle_design_edit\<close> appends one design whose
  \<^verbatim>\<open>previous_prompt\<close> is \<open>P\<close> and whose id is the one the store gave it, and the
  session read back has that id as \<^verbatim>\<open>last_design_id\<close>; the same holds of
  \<^verbatim>\<open>handle_design_variation\<close> when the generator returns a variation.
\<close>

theorem design_lineage:
  assumes "db e SessionSelect \<noteq> Raise" and "db e SessionUpdate \<noteq> Raise"
    and "db e DesignsSelect \<noteq> Raise" and "db e DesignsInsert = Ok"
    and "select_eq Users ''id'' user_id w \<noteq> []"
    and "truthy (dict_get (get_user_session e user_id w) ''last_design_id'')"
    and "select_eq Designs ''id'' (dict_get (get_user_session e user_id w) ''last_design_id'') w =
           previous_design # rest"
    and "dict_get previous_design ''generated_prompt'' = P"
  shows "(\<forall>image_url prompt.
            edit_design e P (dict_get previous_design ''generated_image_url'')
              edit_description = DesignOk image_url prompt \<longrightarrow>
            (\<exists>row. tables (handle_design_edit e from_number user_id edit_description w) Designs =
                     tables w Designs @ [row] \<and>
                   dict_get row ''previous_prompt'' = P \<and>
                   dict_get row ''generated_prompt'' = prompt \<and>
                   dict_get row ''id'' = new_id e) \<and>
            dict_get (get_user_session e user_id
                        (handle_design_edit e from_number user_id edit_description w))
              ''last_design_id'' = new_id e) \<and>
         (\<forall>image_url prompt.
            create_variation e P = DesignOk image_url prompt \<longrightarrow>
            (\<exists>row. tables (handle_design_variation e from_number user_id w) Designs =
                     tables w Designs @ [row] \<and>
                   dict_get row ''previous_prompt'' = P \<and>
                   dict_get row ''generated_prompt'' = prompt \<and>
                   dict_get row ''id'' = new_id e) \<and>
            dict_get (get_user_session e user_id
                        (handle_design_variation e from_number user_id w))
              ''last_design_id'' = new_id e)"
proof (intro conjI allI impI)
  fix image_url prompt
  assume g: "edit_design e P (dict_get previous_design ''generated_image_url'')
               edit_description = DesignOk image_url prompt"
  let ?w1 = "insert_row e Designs
               (edit_record e user_id previous_design edit_description prompt image_url)
               (send_message e from_number msg_applying_changes w)"
  have run: "handle_design_edit e from_number user_id edit_description w =
      send_image e from_number image_url ''? Updated design''
        (update_user_session e user_id [(''last_design_id'', new_id e)] ?w1)"
    using g assms(8) by (intro handle_design_edit_ok [OF assms(3,4,6,7)]) simp
  have u: "select_eq Users ''id'' user_id ?w1 = select_eq Users ''id'' user_id w"
    by (rule select_eq_cong) simp
  show "\<exists>row. tables (handle_design_edit e from_number user_id edit_description w) Designs =
               tables w Designs @ [row] \<and>
             dict_get row ''previous_prompt'' = P \<and>
             dict_get row ''generated_prompt'' = prompt \<and>
             dict_get row ''id'' = new_id e"
    unfolding run using assms(8) by (simp add: design_record_columns)
  show "dict_get (get_user_session e user_id
                    (handle_design_edit e from_number user_id edit_description w))
          ''last_design_id'' = new_id e"
    unfolding run get_user_session_send_image
    by (rule session_after_last_design [OF assms(1,2)]) (simp add: u assms(5))
next
  fix image_url prompt
  assume g: "create_variation e P = DesignOk image_url prompt"
  let ?w1 = "insert_row e Designs
               (variation_record e user_id previous_design prompt image_url)
               (send_message e from_number msg_generating_variation w)"
  have run: "handle_design_variation e from_number user_id w =
      send_image e from_number image_url ''? Design variation''
        (update_user_session e user_id [(''last_design_id'', new_id e)] ?w1)"
    using g assms(8) by (intro handle_design_variation_ok [OF assms(3,4,6,7)]) simp
  have u: "select_eq Users ''id'' user_id ?w1 = select_eq Users ''id'' user_id w"
    by (rule select_eq_cong) simp
  show "\<exists>row. tables (handle_design_variation e from_number user_id w) Designs =
               tables w Designs @ [row] \<and>
             dict_get row ''previous_prompt'' = P \<and>
             dict_get row ''generated_prompt'' = prompt \<and>
             dict_get row ''id'' = new_id e"
    unfolding run using assms(8) by (simp add: design_record_columns)
  show "dict_get (get_user_session e user_id
                    (handle_design_variation e from_number user_id w))
          ''last_design_id'' = new_id e"
    unfolding run get_user_session_send_image
    by (rule session_after_last_design [OF assms(1,2)]) (simp add: u assms(5))
qed

lemma select_design_row [simp]:
  "select_eq Designs ''id'' (JStr did) (world_of us [design_row did p]) = [design_row did p]"
  by (simp add: select_eq_def design_row_def dict_get_def)

lemma design_row_columns [simp]:
  "dict_get (design_row did p) ''generated_prompt'' = JStr p"
  "dict_get (design_row did p) ''generated_image_url'' = JStr ''https://img/first''"
  by (simp_all add: design_row_def dict_get_def)

theorem design_lineage_witness:
  "dict_get (last (tables (handle_design_edit env_ok ''15550001'' (JStr ''u1'') ''make it gold''
       (world_of [user_row ''u1'' ''15550001'' (JStr ''idle'') (JObj []) JNull (JStr ''g1'')]
          [design_row ''g1'' ''a ring'']))
     Designs)) ''previous_prompt'' = JStr ''a ring'' \<and>
   dict_get (get_user_session env_ok (JStr ''u1'')
     (handle_design_edit env_ok ''15550001'' (JStr ''u1'') ''make it gold''
       (world_of [user_row ''u1'' ''15550001'' (JStr ''idle'') (JObj []) JNull (JStr ''g1'')]
          [design_row ''g1'' ''a ring''])))
     ''last_design_id'' = JStr ''new-1'' \<and>
   dict_get (last (tables (handle_design_variation env_ok ''15550001'' (JStr ''u1'')
       (world_of [user_row ''u1'' ''15550001'' (JStr ''idle'') (JObj []) JNull (JStr ''g1'')]
          [design_row ''g1'' ''a ring'']))
     Designs)) ''previous_prompt'' = JStr ''a ring'' \<and>
   dict_get (get_user_session env_ok (JStr ''u1'')
     (handle_design_variation env_ok ''15550001'' (JStr ''u1'')
       (world_of [user_row ''u1'' ''15550001'' (JStr ''idle'') (JObj []) JNull (JStr ''g1'')]
          [design_row ''g1'' ''a ring''])))
     ''last_design_id'' = JStr ''new-1''"
proof -
  let ?w = "world_of [user_row ''u1'' ''15550001'' (JStr ''idle'') (JObj []) JNull (JStr ''g1'')]
              [design_row ''g1'' ''a ring'']"
  have h: "db env_ok SessionSelect \<noteq> Raise" "db env_ok SessionUpdate \<noteq> Raise"
    "db env_ok DesignsSelect \<noteq> Raise" "db env_ok DesignsInsert = Ok"
    "select_eq Users ''id'' (JStr ''u1'') ?w \<noteq> []"
    "truthy (dict_get (get_user_session env_ok (JStr ''u1'') ?w) ''last_design_id'')"
    "select_eq Designs ''id'' (dict_get (get_user_session env_ok (JStr ''u1'') ?w)
        ''last_design_id'') ?w = design_row ''g1'' ''a ring'' # []"
    "dict_get (design_row ''g1'' ''a ring'') ''generated_prompt'' = JStr ''a ring''"
    by simp_all
  show ?thesis
    using design_lineage [OF h, of "''make it gold''" "''15550001''"]
    by auto
qed

section \<open>Text messages\<close>

lemma save_message_to_db_frame [simp]:
  "outbox (save_message_to_db e u d t c m x w) = outbox w"
  "t' \<noteq> Messages \<Longrightarrow> tables (save_message_to_db e u d t c m x w) t' = tables w t'"
  by (simp_all add: save_message_to_db_def split: outcome.splits)

lemma save_message_to_db_messages:
  "db e MessagesInsert = Ok \<Longrightarrow>
   tables (save_message_to_db e u d t c m x w) Messages =
     tables w Messages @
     [stored e
        [(''user_id'', u), (''direction'', JStr d), (''message_type'', JStr t),
         (''content'', c), (''media_url'', m),
         (''meta'', if truthy x then x else JObj []), (''created_at'', JStr (now e))]]"
  by (simp add: save_message_to_db_def)

lemma get_user_session_save_message:
  "get_user_session e u (save_message_to_db e' u' d t c m x w) = get_user_session e u w"
  by (rule get_user_session_cong) simp

lemma get_or_create_user_frame:
  assumes "get_or_create_user e n w = (res, w0)"
  shows "outbox w0 = outbox w"
    and "t \<noteq> Users \<Longrightarrow> tables w0 t = tables w t"
    and "length (tables w Users) \<le> length (tables w0 Users)"
    and "i < length (tables w Users) \<Longrightarrow> c \<noteq> ''last_interaction'' \<Longrightarrow>
           dict_get (tables w0 Users ! i) c = dict_get (tables w Users ! i) c"
proof -
  have o: "\<not> has_key [(''last_interaction'', v)] c" if "c \<noteq> ''last_interaction''" for v
    using that by (simp add: has_key_def)
  show "outbox w0 = outbox w"
    using assms
    by (auto simp: get_or_create_user_def split: if_splits list.splits outcome.splits)
  show "t \<noteq> Users \<Longrightarrow> tables w0 t = tables w t"
    using assms
    by (auto simp: get_or_create_user_def split: if_splits list.splits outcome.splits)
  show "length (tables w Users) \<le> length (tables w0 Users)"
    using assms
    by (auto simp: get_or_create_user_def split: if_splits list.splits outcome.splits)
  show "i < length (tables w Users) \<Longrightarrow> c \<noteq> ''last_interaction'' \<Longrightarrow>
           dict_get (tables w0 Users ! i) c = dict_get (tables w Users ! i) c"
    using assms
    by (auto simp: get_or_create_user_def nth_append dict_get_override_other [OF o]
        split: if_splits list.splits outcome.splits)
qed

lemma intent_distinct:
  "JStr ''design_with_gia'' \<noteq> JStr ''search''"
  "JStr ''design_with_gia'' \<noteq> JStr ''design_free_input''"
  "JStr ''listing_intent'' \<noteq> JStr ''search''"
  "JStr ''listing_intent'' \<noteq> JStr ''design_free_input''"
  "JStr ''listing_intent'' \<noteq> JStr ''design_with_gia''"
  "JStr ''listing_intent'' \<noteq> JStr ''design_edit''"
  "JStr ''listing_intent'' \<noteq> JStr ''design_variation''"
  by simp_all

text \<open>
  C6. Let the sender be resolved to a user whose session has no
  \<^verbatim>\<open>last_diamond_id\<close>, and let the intent detected for the text be
  \<^verbatim>\<open>design_with_gia\<close>. Then \<^verbatim>\<open>handle_text_message\<close> returns without error, the one
  message it sends is the fixed instruction to upload a certificate first, no design
  is stored, the users table is as the resolution of the user left it, so the session
  read back is the session loaded, and of the rows present before no column but
  \<^verbatim>\<open>last_interaction\<close> has changed.
\<close>

theorem design_with_gia_needs_diamond:
  assumes "get_or_create_user e from_number w = (Some user, w0)"
    and "session = get_user_session e (dict_get user ''id'') w0"
    and "\<not> truthy (dict_get session ''last_diamond_id'')"
    and "dict_get (detect e text session) ''intent'' = JStr ''design_with_gia''"
    and "w' = snd (handle_text_message e from_number text w)"
  shows "fst (handle_text_message e from_number text w) = None \<and>
         outbox w' = outbox w @ [(Text from_number msg_need_gia_first,
                                  delivers e (Text from_number msg_need_gia_first))] \<and>
         tables w' Designs = tables w Designs \<and>
         tables w' Users = tables w0 Users \<and>
         get_user_session e (dict_get user ''id'') w' = session \<and>
         (\<forall>i < length (tables w Users). \<forall>c. c \<noteq> ''last_interaction'' \<longrightarrow>
            dict_get (tables w' Users ! i) c = dict_get (tables w Users ! i) c)"
proof -
  let ?w1 = "save_message_to_db e (dict_get user ''id'') ''incoming'' ''text'' (JStr text)
               JNull JNull w0"
  have run: "handle_text_message e from_number text w =
      (None, send_message e from_number msg_need_gia_first ?w1)"
    using assms(1,3,4) unfolding assms(2)
    by (simp add: handle_text_message_def Let_def intent_distinct)
  have w': "w' = send_message e from_number msg_need_gia_first ?w1"
    by (simp add: assms(5) run)
  have u: "tables w' Users = tables w0 Users"
    by (simp add: w')
  have s: "get_user_session e (dict_get user ''id'') w' = session"
    unfolding assms(2) by (rule get_user_session_cong) (rule u)
  show ?thesis
    using get_or_create_user_frame [OF assms(1)] u s
    by (simp add: run) (simp add: w')
qed

lemma env_gia_intent_simps [simp]:
  "db env_gia_intent c = Ok" "now env_gia_intent = ''2025-01-01T00:00:00''"
  "delivers env_gia_intent m = True" "intent_api_key env_gia_intent = Some ''key''"
  "intent_api env_gia_intent t = Some [(''intent'', JStr ''design_with_gia'')]"
  by (simp_all add: env_gia_intent_def env_ok_def)

lemma get_or_create_user_known:
  assumes "db e UsersSelect \<noteq> Raise" and "db e UsersTouch \<noteq> Raise"
  shows "get_or_create_user e n (world_of [user_row uid n s c d g] ds) =
     (Some (user_row uid n s c d g),
      update_eq Users [(''last_interaction'', JStr (now e))] ''id'' (JStr uid)
        (world_of [user_row uid n s c d g] ds))"
  using assms by (simp add: get_or_create_user_def)

lemma touched_user_row:
  "tables (update_eq Users [(''last_interaction'', v)] ''id'' (JStr uid)
             (world_of [user_row uid n s c d g] ds)) Users =
     [override (user_row uid n s c d g) [(''last_interaction'', v)]]"
  by simp

lemma touched_columns [simp]:
  "dict_get (override (user_row uid n s c d g) [(''last_interaction'', v)]) ''id'' = JStr uid"
  "dict_get (override (user_row uid n s c d g) [(''last_interaction'', v)]) ''session_step'' = s"
  "dict_get (override (user_row uid n s c d g) [(''last_interaction'', v)]) ''session_context'' = c"
  "dict_get (override (user_row uid n s c d g) [(''last_interaction'', v)]) ''last_diamond_id'' = d"
  "dict_get (override (user_row uid n s c d g) [(''last_interaction'', v)]) ''last_design_id'' = g"
  by (simp_all add: dict_get_override_other has_key_def)

lemma get_user_session_touched:
  assumes "db e SessionSelect \<noteq> Raise"
  shows "get_user_session e (JStr uid)
           (update_eq Users [(''last_interaction'', v)] ''id'' (JStr uid)
              (world_of [user_row uid n s c d g] ds)) =
         [(''step'', s), (''context'', c), (''last_diamond_id'', d), (''last_design_id'', g)]"
  using assms by (simp add: get_user_session_def select_eq_def)

theorem design_with_gia_needs_diamond_witness:
  "map fst (outbox (snd (handle_text_message env_gia_intent ''15550001''
       ''design a ring with my diamond''
       (world_of [user_row ''u1'' ''15550001'' (JStr ''idle'') (JObj []) JNull JNull] [])))) =
     [Text ''15550001'' msg_need_gia_first] \<and>
   get_user_session env_gia_intent (JStr ''u1'')
     (snd (handle_text_message env_gia_intent ''15550001'' ''design a ring with my diamond''
       (world_of [user_row ''u1'' ''15550001'' (JStr ''idle'') (JObj []) JNull JNull] []))) =
     [(''step'', JStr ''idle''), (''context'', JObj []), (''last_diamond_id'', JNull),
      (''last_design_id'', JNull)]"
proof -
  let ?w = "world_of [user_row ''u1'' ''15550001'' (JStr ''idle'') (JObj []) JNull JNull] []"
  let ?u = "user_row ''u1'' ''15550001'' (JStr ''idle'') (JObj []) JNull JNull"
  let ?v = "update_eq Users [(''last_interaction'', JStr (now env_gia_intent))] ''id''
               (JStr ''u1'') ?w"
  let ?s = "[(''step'', JStr ''idle''), (''context'', JObj []), (''last_diamond_id'', JNull),
             (''last_design_id'', JNull)]"
  have h1: "get_or_create_user env_gia_intent ''15550001'' ?w = (Some ?u, ?v)"
    by (rule get_or_create_user_known) simp_all
  have h2: "?s = get_user_session env_gia_intent (dict_get ?u ''id'') ?v"
    by (simp add: get_user_session_touched)
  have h3: "\<not> truthy (dict_get ?s ''last_diamond_id'')"
    by simp
  have h4: "dict_get (detect env_gia_intent ''design a ring with my diamond'' ?s) ''intent'' =
      JStr ''design_with_gia''"
    by (simp add: detect_def key_configured_def)
  show ?thesis
    using design_with_gia_needs_diamond [OF h1 h2 h3 h4 refl]
    by simp
qed

subsection \<open>Routing by intent, and the audit log\<close>

lemma detect_show_me:
  "detect env_ok ''show me oval diamonds'' s =
     intent_dict ''search'' (85 / 100) (JObj []) ''User searching for diamonds''"
  by (simp add: detect_def key_configured_def placeholder_detection_def any_in_def Let_def
      lower_def lower_char_def)

lemma detect_contact:
  "detect env_ok ''contact'' s =
     intent_dict ''listing_intent'' (8 / 10) (JObj []) ''User discussing pricing/listing''"
  by (simp add: detect_def key_configured_def placeholder_detection_def any_in_def Let_def
      lower_def lower_char_def)

text \<open>
  C2 fails on the code. A user at step \<^verbatim>\<open>listing_price\<close> sends
  \<^verbatim>\<open>show me oval diamonds\<close>; with the keyword detector the intent is
  \<^verbatim>\<open>search\<close>, and \<^verbatim>\<open>handle_text_message\<close> runs the search: it sends the two
  search replies, and the stored session is still at \<^verbatim>\<open>listing_price\<close> with an
  empty context, so the listing handler has not run.
\<close>

theorem text_at_listing_price_is_searched:
  "dict_get (detect env_ok ''show me oval diamonds''
      [(''step'', JStr ''listing_price''), (''context'', JObj []),
       (''last_diamond_id'', JStr ''d1''), (''last_design_id'', JNull)]) ''intent'' =
     JStr ''search'' \<and>
   fst (handle_text_message env_ok ''15550001'' ''show me oval diamonds''
      (world_of [user_row ''u1'' ''15550001'' (JStr ''listing_price'') (JObj [])
         (JStr ''d1'') JNull] [])) = None \<and>
   map fst (outbox (snd (handle_text_message env_ok ''15550001'' ''show me oval diamonds''
      (world_of [user_row ''u1'' ''15550001'' (JStr ''listing_price'') (JObj [])
         (JStr ''d1'') JNull] [])))) =
     [Text ''15550001'' msg_searching, Text ''15550001'' msg_no_results] \<and>
   get_user_session env_ok (JStr ''u1'')
     (snd (handle_text_message env_ok ''15550001'' ''show me oval diamonds''
        (world_of [user_row ''u1'' ''15550001'' (JStr ''listing_price'') (JObj [])
           (JStr ''d1'') JNull] []))) =
     [(''step'', JStr ''listing_price''), (''context'', JObj []),
      (''last_diamond_id'', JStr ''d1''), (''last_design_id'', JNull)]"
proof -
  let ?u = "user_row ''u1'' ''15550001'' (JStr ''listing_price'') (JObj []) (JStr ''d1'') JNull"
  let ?w = "world_of [?u] []"
  let ?v = "update_eq Users [(''last_interaction'', JStr (now env_ok))] ''id'' (JStr ''u1'') ?w"
  let ?m = "save_message_to_db env_ok (JStr ''u1'') ''incoming'' ''text''
              (JStr ''show me oval diamonds'') JNull JNull ?v"
  have h1: "get_or_create_user env_ok ''15550001'' ?w = (Some ?u, ?v)"
    by (rule get_or_create_user_known) simp_all
  have run: "handle_text_message env_ok ''15550001'' ''show me oval diamonds'' ?w =
      (None, send_message env_ok ''15550001'' msg_no_results
               (send_message env_ok ''15550001'' msg_searching ?m))"
    by (simp add: handle_text_message_def h1 Let_def detect_show_me intent_dict_def
        handle_search_query_def)
  show ?thesis
    by (simp add: run detect_show_me intent_dict_def get_user_session_send_message
        get_user_session_save_message get_user_session_touched)
qed

text \<open>
  C8 fails on the code. A user at step \<^verbatim>\<open>listing_price\<close> sends \<^verbatim>\<open>contact\<close>, which
  the keyword detector reads as \<^verbatim>\<open>listing_intent\<close>. The handling posts the request
  for contact information, and the messages table afterwards holds the incoming text
  alone: the reply that was sent has not been saved.
\<close>

theorem sent_reply_is_not_saved:
  "map fst (outbox (snd (handle_text_message env_ok ''15550001'' ''contact''
      (world_of [user_row ''u1'' ''15550001'' (JStr ''listing_price'') (JObj [])
         (JStr ''d1'') JNull] [])))) =
     [Text ''15550001'' msg_ask_contact] \<and>
   map (\<lambda>r. (dict_get r ''direction'', dict_get r ''content''))
     (tables (snd (handle_text_message env_ok ''15550001'' ''contact''
        (world_of [user_row ''u1'' ''15550001'' (JStr ''listing_price'') (JObj [])
           (JStr ''d1'') JNull] []))) Messages) =
     [(JStr ''incoming'', JStr ''contact'')]"
proof -
  let ?u = "user_row ''u1'' ''15550001'' (JStr ''listing_price'') (JObj []) (JStr ''d1'') JNull"
  let ?w = "world_of [?u] []"
  let ?v = "update_eq Users [(''last_interaction'', JStr (now env_ok))] ''id'' (JStr ''u1'') ?w"
  let ?m = "save_message_to_db env_ok (JStr ''u1'') ''incoming'' ''text''
              (JStr ''contact'') JNull JNull ?v"
  let ?upd = "[(''step'', JStr ''listing_contact''),
               (''context'', JObj [(''price'', JStr ''Contact for Price'')])]"
  have h1: "get_or_create_user env_ok ''15550001'' ?w = (Some ?u, ?v)"
    by (rule get_or_create_user_known) simp_all
  have run: "handle_text_message env_ok ''15550001'' ''contact'' ?w =
      (None, send_message env_ok ''15550001'' msg_ask_contact
               (update_user_session env_ok (JStr ''u1'') ?upd ?m))"
    by (simp add: handle_text_message_def h1 Let_def detect_contact intent_dict_def
        get_user_session_touched handle_listing_flow_def lower_examples)
  show ?thesis
    by (simp add: run save_message_to_db_messages stored_def)
qed

section \<open>Certificate ingestion\<close>


lemma send_gia_menu_tables [simp]:
  "t \<noteq> Messages \<Longrightarrow> tables (send_gia_menu e to u d w) t = tables w t"
  by (simp add: send_gia_menu_def)






lemma env_no_report_simps [simp]:
  "db env_no_report c = Ok" "now env_no_report = ''2025-01-01T00:00:00''"
  "delivers env_no_report m = True" "gia_api_key env_no_report = Some ''key''"
  "download env_no_report i = Some ''bytes''"
  "public_url env_no_report n = JStr (''https://files/'' @ n)"
  "pdf_to_image env_no_report u = Inr u" "uuid4 env_no_report = ''0000''"
  "vision_api env_no_report u =
     Inr [(''shape'', JStr ''Round Brilliant''), (''carat'', JNum 1), (''color'', JStr ''E''),
          (''clarity'', JStr ''VS2''), (''cut'', JStr ''Excellent''),
          (''certificate_number'', JStr ''2141438171'')]"
  by (simp_all add: env_no_report_def env_ok_def)


end
